(* ===== verification/Prelude.thy ===== *)
theory Prelude
  imports Complex_Main "HOL-Library.Word" "HOL-Library.Multiset"
begin

text \<open>
  Shared vocabulary of the model of \<^verbatim>\<open>src/y.py\<close>: the types of pixels, images,
  masks, points and contours as the script handles them through OpenCV/numpy, the
  grid-shape predicate every image lemma is stated with, and generic list lemmas the
  component theories share (descending order, loops with an early \<^verbatim>\<open>break\<close>).
\<close>

named_theorems grid_simps \<open>shape facts about images and masks\<close>

section \<open>Types\<close>

text \<open>
  numpy images are \<^verbatim>\<open>uint8\<close> arrays of shape (height, width, 3): a list of rows, each
  a list of 3-channel pixels. A mask (\<^verbatim>\<open>cv2.inRange\<close>) is a single-channel
  \<^verbatim>\<open>uint8\<close> array of the same shape. OpenCV points and rectangles are Python ints.
\<close>

type_synonym u8 = "8 word"
type_synonym pixel = "u8 \<times> u8 \<times> u8"
type_synonym 'a grid = "'a list list"
type_synonym image = "pixel grid"
type_synonym mask = "u8 grid"
type_synonym point = "int \<times> int"
type_synonym contour = "point list"
type_synonym rect = "int \<times> int \<times> int \<times> int"

text \<open>
  The exceptions the script can raise between decoding and writing an image: a
  \<^verbatim>\<open>ZeroDivisionError\<close> of Python, the assertion \<^verbatim>\<open>cv2.resize\<close> fails on an
  empty target size, and numpy's shape mismatch on slice assignment.
\<close>

datatype py_error = ZeroDivisionError | ResizeError | BroadcastError

definition black :: pixel where
  "black = (0, 0, 0)"

section \<open>Grid shape\<close>

text \<open>\<open>has_shape w h g\<close>: \<open>g\<close> has \<open>h\<close> rows of \<open>w\<close> entries (numpy \<^verbatim>\<open>shape[:2] == (h, w)\<close>).\<close>

definition has_shape :: "nat \<Rightarrow> nat \<Rightarrow> 'a grid \<Rightarrow> bool" where
  "has_shape w h g \<longleftrightarrow> length g = h \<and> list_all (\<lambda>r. length r = w) g"

lemma has_shape_map_map [grid_simps]:
  "has_shape w h (map (map f) g) = has_shape w h g"
  by (simp add: has_shape_def list_all_iff)

lemma has_shape_tabulate [grid_simps]:
  "has_shape w h (map (\<lambda>r. map (f r) [0..<w]) [0..<h])"
  by (simp add: has_shape_def list_all_iff)

lemma has_shape_nth:
  "has_shape w h g \<Longrightarrow> r < h \<Longrightarrow> length (g ! r) = w"
  by (simp add: has_shape_def list_all_length)

section \<open>Loops with an early break\<close>

text \<open>
  A Python \<^verbatim>\<open>for x in xs: if stop(x): break; ...\<close> visits the longest prefix of
  \<open>xs\<close> whose elements do not stop the loop: \<open>takeWhile\<close>. On a list ordered so that
  the stopping condition is upward closed, that prefix is the filter.
\<close>

lemma takeWhile_sorted_filter:
  assumes "sorted_wrt (\<lambda>a b. \<not> P a \<longrightarrow> \<not> P b) xs"
  shows "takeWhile P xs = filter P xs"
  using assms by (induction xs) auto

lemma sorted_wrt_desc_mono:
  fixes f :: "'a \<Rightarrow> 'b::linorder"
  assumes "sorted_wrt (\<lambda>a b. f b \<le> f a) xs"
  shows "sorted_wrt (\<lambda>a b. \<not> t \<le> f a \<longrightarrow> \<not> t \<le> f b) xs"
  by (rule sorted_wrt_mono_rel [OF _ assms]) auto

section \<open>Permutations\<close>

lemma mset_concat_map_perm:
  "mset xs = mset ys \<Longrightarrow> mset (concat (map f xs)) = mset (concat (map f ys))"
proof -
  have "mset (concat (map f zs)) = sum_mset (image_mset (mset \<circ> f) (mset zs))" for zs :: "'a list"
    by (induction zs) auto
  then show "mset xs = mset ys \<Longrightarrow> ?thesis" by simp
qed

end
