(* ===== verification/Color_Table.thy ===== *)
theory Color_Table
  imports Prelude
begin

text \<open>
  The script's module-level constants (\<^verbatim>\<open>src/y.py\<close> lines 6--25): the ordered
  colour table \<^verbatim>\<open>color_names\<close> (a Python dict, iterated in insertion order, so an
  association list), \<^verbatim>\<open>min_area\<close>, the folders and the 800 by 800 canvas size,
  gathered into one configuration record that the other theories take as a parameter.
\<close>

text \<open>A band is the pair (lower, upper) of HSV triples given to \<^verbatim>\<open>cv2.inRange\<close>.\<close>

type_synonym hsv_bound = "int \<times> int \<times> int"
type_synonym band_range = "hsv_bound \<times> hsv_bound"

definition color_names :: "(string \<times> band_range) list" where
  "color_names =
    [(''Red'',    ((0, 100, 100),   (10, 255, 255))),
     (''Orange'', ((10, 150, 150),  (25, 255, 255))),
     (''Yellow'', ((25, 150, 150),  (40, 255, 255))),
     (''Green'',  ((35, 100, 100),  (85, 255, 255))),
     (''Cyan'',   ((85, 100, 100),  (95, 255, 255))),
     (''Blue'',   ((90, 100, 100),  (140, 255, 255))),
     (''Purple'', ((130, 100, 100), (150, 255, 255))),
     (''Pink'',   ((145, 80, 180),  (170, 200, 255)))]"

definition min_area :: rat where
  "min_area = 7000"

definition image_folder :: string where
  "image_folder = ''C://Users//user//images/''"

definition output_folder :: string where
  "output_folder = ''C://Users//user//output/''"

definition standard_width :: nat where
  "standard_width = 800"

definition standard_height :: nat where
  "standard_height = 800"

record config =
  cfg_width :: nat
  cfg_height :: nat
  cfg_min_area :: rat
  cfg_bands :: "(string \<times> band_range) list"
  cfg_image_folder :: string
  cfg_output_folder :: string

definition script_config :: config where
  "script_config =
    \<lparr>cfg_width = standard_width, cfg_height = standard_height, cfg_min_area = min_area,
     cfg_bands = color_names, cfg_image_folder = image_folder,
     cfg_output_folder = output_folder\<rparr>"

text \<open>
  Well-formedness of a colour table: distinct names (dict keys), every bound an
  8-bit channel value, lower bound below upper bound channel by channel.
\<close>

definition bound_ok :: "hsv_bound \<Rightarrow> bool" where
  "bound_ok b = (case b of (a, c, d) \<Rightarrow> 0 \<le> a \<and> a \<le> 255 \<and> 0 \<le> c \<and> c \<le> 255 \<and> 0 \<le> d \<and> d \<le> 255)"

definition band_ok :: "band_range \<Rightarrow> bool" where
  "band_ok b = (case b of ((l0, l1, l2), (u0, u1, u2)) \<Rightarrow>
     bound_ok (l0, l1, l2) \<and> bound_ok (u0, u1, u2) \<and> l0 \<le> u0 \<and> l1 \<le> u1 \<and> l2 \<le> u2)"

definition table_ok :: "(string \<times> band_range) list \<Rightarrow> bool" where
  "table_ok t \<longleftrightarrow> distinct (map fst t) \<and> list_all (band_ok \<circ> snd) t"

lemma color_names_ok: "table_ok color_names"
  by (simp add: table_ok_def color_names_def band_ok_def bound_ok_def)

lemma script_config_simps [simp]:
  "cfg_width script_config = 800" "cfg_height script_config = 800"
  "cfg_min_area script_config = 7000" "cfg_bands script_config = color_names"
  by (simp_all add: script_config_def standard_width_def standard_height_def min_area_def)

end
