(* ===== verification/Normalizer.thy ===== *)
theory Normalizer
  imports Color_Table
begin

text \<open>
  Size normalisation (\<^verbatim>\<open>src/y.py\<close> lines 39--51): one uniform scale factor
  \<open>min(800/width, 800/height)\<close>, the scaled size truncated by \<^verbatim>\<open>int()\<close>,
  \<^verbatim>\<open>cv2.resize\<close> (a parameter: OpenCV's \<^verbatim>\<open>INTER_AREA\<close> interpolation is not
  modelled, only its failure on an empty target size), and the copy into a black canvas at
  the offsets \<open>(800 - new) // 2\<close>. Python's floats are modelled as exact rationals.
\<close>

definition image_width :: "'a grid \<Rightarrow> nat" where
  "image_width img = (case img of [] \<Rightarrow> 0 | r # _ \<Rightarrow> length r)"

definition scale_of :: "nat \<Rightarrow> nat \<Rightarrow> nat \<Rightarrow> nat \<Rightarrow> rat" where
  "scale_of tw th w h = min (of_nat tw / of_nat w) (of_nat th / of_nat h)"

definition scaled_size :: "nat \<Rightarrow> nat \<Rightarrow> nat \<Rightarrow> nat \<Rightarrow> py_error + nat \<times> nat" where
  "scaled_size tw th w h =
     (if w = 0 \<or> h = 0 then Inl ZeroDivisionError
      else let s = scale_of tw th w h in Inr (nat \<lfloor>of_nat w * s\<rfloor>, nat \<lfloor>of_nat h * s\<rfloor>))"

definition offsets :: "nat \<Rightarrow> nat \<Rightarrow> nat \<Rightarrow> nat \<Rightarrow> int \<times> int" where
  "offsets tw th nw nh = ((int tw - int nw) div 2, (int th - int nh) div 2)"

text \<open>
  \<open>padded[y0:y0+nh, x0:x0+nw] = resized\<close> on a \<open>th\<close> by \<open>tw\<close> black canvas: the
  slice is clipped to the canvas, and numpy raises unless the source has the slice's
  shape.
\<close>

definition pad_image :: "nat \<Rightarrow> nat \<Rightarrow> nat \<Rightarrow> nat \<Rightarrow> nat \<Rightarrow> nat \<Rightarrow> image \<Rightarrow> py_error + image" where
  "pad_image tw th x0 y0 nw nh src =
     (let rows = min (y0 + nh) th - y0; cols = min (x0 + nw) tw - x0 in
      if has_shape cols rows src then
        Inr (map (\<lambda>r. map (\<lambda>c.
               if y0 \<le> r \<and> r < y0 + rows \<and> x0 \<le> c \<and> c < x0 + cols
               then src ! (r - y0) ! (c - x0) else black) [0..<tw]) [0..<th])
      else Inl BroadcastError)"

definition normalize :: "config \<Rightarrow> (image \<Rightarrow> nat \<Rightarrow> nat \<Rightarrow> image) \<Rightarrow> image \<Rightarrow> py_error + image" where
  "normalize cfg resize img =
     (let tw = cfg_width cfg; th = cfg_height cfg in
      case scaled_size tw th (image_width img) (length img) of
        Inl e \<Rightarrow> Inl e
      | Inr (nw, nh) \<Rightarrow>
          if nw = 0 \<or> nh = 0 then Inl ResizeError
          else (case offsets tw th nw nh of
                  (x0, y0) \<Rightarrow> pad_image tw th (nat x0) (nat y0) nw nh (resize img nw nh)))"

text \<open>What the script needs of \<^verbatim>\<open>cv2.resize\<close>: it returns the size it is asked for.\<close>

definition resize_ok :: "(image \<Rightarrow> nat \<Rightarrow> nat \<Rightarrow> image) \<Rightarrow> bool" where
  "resize_ok resize \<longleftrightarrow> (\<forall>img w h. has_shape w h (resize img w h))"

text \<open>A resize that satisfies it: nearest-neighbour sampling.\<close>

definition resize_nearest :: "image \<Rightarrow> nat \<Rightarrow> nat \<Rightarrow> image" where
  "resize_nearest img w h =
     map (\<lambda>r. map (\<lambda>c. img ! (r * length img div h) ! (c * image_width img div w)) [0..<w]) [0..<h]"

section \<open>Lemmas\<close>

lemma resize_nearest_ok: "resize_ok resize_nearest"
  by (simp add: resize_ok_def resize_nearest_def grid_simps)

lemma pad_image_shape:
  "pad_image tw th x0 y0 nw nh src = Inr c \<Longrightarrow> has_shape tw th c"
  by (auto simp: pad_image_def Let_def grid_simps split: if_splits)

lemma nat_floor_of_nat_div:
  "nat \<lfloor>(of_nat a * of_nat b / of_nat c :: rat)\<rfloor> = a * b div c"
  by (metis floor_divide_of_nat_eq nat_int of_nat_mult)

lemma div_le_of_mult_le: "a \<le> t * w \<Longrightarrow> 0 < (w::nat) \<Longrightarrow> a div w \<le> t"
  by (metis div_le_mono nonzero_mult_div_cancel_right not_gr0)

lemma nat_offset: "n \<le> t \<Longrightarrow> nat ((int t - int n) div 2) = (t - n) div 2"
  by (metis nat_int of_nat_diff of_nat_numeral zdiv_int)

lemma scale_choice:
  "0 < w \<Longrightarrow> 0 < h \<Longrightarrow>
   (of_nat tw / of_nat w \<le> (of_nat th / of_nat h :: rat)) = (tw * h \<le> th * w)"
  by (simp add: frac_le_eq divide_le_0_iff mult.commute flip: of_nat_mult)

lemma scaled_size_closed:
  assumes "0 < w" "0 < h"
  shows "scaled_size tw th w h =
         Inr (if tw * h \<le> th * w then (tw, h * tw div w) else (w * th div h, th))"
proof (cases "tw * h \<le> th * w")
  case True
  then have "scale_of tw th w h = of_nat tw / of_nat w"
    using assms by (simp add: scale_of_def scale_choice min_def)
  with True assms show ?thesis
    by (simp add: scaled_size_def nat_floor_of_nat_div)
next
  case False
  then have "scale_of tw th w h = of_nat th / of_nat h"
    using assms by (simp add: scale_of_def scale_choice min_def)
  with False assms show ?thesis
    by (simp add: scaled_size_def nat_floor_of_nat_div)
qed

lemma scaled_size_pos:
  "scaled_size tw th w h = Inr r \<Longrightarrow> 0 < w \<and> 0 < h"
  by (auto simp: scaled_size_def split: if_splits)

lemma scaled_size_le:
  assumes "scaled_size tw th w h = Inr (nw, nh)"
  shows "nw \<le> tw \<and> nh \<le> th"
proof -
  from assms have pos: "0 < w" "0 < h" by (auto dest: scaled_size_pos)
  show ?thesis
  proof (cases "tw * h \<le> th * w")
    case True
    then have "h * tw div w \<le> th" using pos by (simp add: div_le_of_mult_le mult.commute)
    with True pos assms show ?thesis by (auto simp: scaled_size_closed)
  next
    case False
    then have "w * th div h \<le> tw" using pos by (simp add: div_le_of_mult_le mult.commute)
    with False pos assms show ?thesis by (auto simp: scaled_size_closed)
  qed
qed



lemma pad_image_fits:
  "x0 + nw \<le> tw \<Longrightarrow> y0 + nh \<le> th \<Longrightarrow> has_shape nw nh src \<Longrightarrow>
   pad_image tw th x0 y0 nw nh src =
     Inr (map (\<lambda>r. map (\<lambda>c.
            if y0 \<le> r \<and> r < y0 + nh \<and> x0 \<le> c \<and> c < x0 + nw
            then src ! (r - y0) ! (c - x0) else black) [0..<tw]) [0..<th])"
  by (simp add: pad_image_def Let_def min_def)

lemma normalize_shape:
  "normalize cfg resize img = Inr c \<Longrightarrow> has_shape (cfg_width cfg) (cfg_height cfg) c"
  by (auto simp: normalize_def Let_def split: sum.splits prod.splits if_splits
           dest: pad_image_shape)

lemma normalize_cfg_bands [simp]:
  "normalize (cfg\<lparr>cfg_bands := bs\<rparr>) resize img = normalize cfg resize img"
  by (simp add: normalize_def)

lemma centered_fits: "n \<le> (t::nat) \<Longrightarrow> (t - n) div 2 + n \<le> t"
  by linarith

lemma normalize_pad_call:
  assumes "scaled_size (cfg_width cfg) (cfg_height cfg) (image_width img) (length img) = Inr (nw, nh)"
    and "0 < nw" "0 < nh"
  shows "normalize cfg resize img =
    pad_image (cfg_width cfg) (cfg_height cfg) ((cfg_width cfg - nw) div 2) ((cfg_height cfg - nh) div 2)
      nw nh (resize img nw nh)"
proof -
  from scaled_size_le [OF assms(1)] have "nw \<le> cfg_width cfg" "nh \<le> cfg_height cfg" by simp_all
  with assms show ?thesis by (simp add: normalize_def Let_def offsets_def nat_offset)
qed

text \<open>
  C11: When the scaled size is not empty, normalisation succeeds and the canvas is the
  target size, black except for the resized image placed at the offsets
  \<open>(target - scaled) div 2\<close> on both axes (lines 48--51).
\<close>

lemma normalize_result:
  assumes "resize_ok resize"
    and "scaled_size (cfg_width cfg) (cfg_height cfg) (image_width img) (length img) = Inr (nw, nh)"
    and "0 < nw" "0 < nh"
  shows "normalize cfg resize img =
    Inr (map (\<lambda>r. map (\<lambda>c.
           if (cfg_height cfg - nh) div 2 \<le> r \<and> r < (cfg_height cfg - nh) div 2 + nh \<and>
              (cfg_width cfg - nw) div 2 \<le> c \<and> c < (cfg_width cfg - nw) div 2 + nw
           then resize img nw nh ! (r - (cfg_height cfg - nh) div 2) ! (c - (cfg_width cfg - nw) div 2)
           else black) [0..<cfg_width cfg]) [0..<cfg_height cfg])"
proof -
  from scaled_size_le [OF assms(2)] have "nw \<le> cfg_width cfg" "nh \<le> cfg_height cfg" by simp_all
  moreover have "has_shape nw nh (resize img nw nh)"
    using assms(1) by (simp add: resize_ok_def)
  ultimately show ?thesis
    using assms(2-4) by (simp add: normalize_pad_call centered_fits pad_image_fits)
qed

theorem normalize_result_witness:
  "resize_ok resize_nearest \<and>
   scaled_size (cfg_width script_config) (cfg_height script_config)
     (image_width [[black, black]]) (length [[black, black]]) = Inr (800, 400) \<and>
   normalize script_config resize_nearest [[black, black]] =
    Inr (map (\<lambda>r. map (\<lambda>c.
           if (cfg_height script_config - 400) div 2 \<le> r \<and> r < (cfg_height script_config - 400) div 2 + 400 \<and>
              (cfg_width script_config - 800) div 2 \<le> c \<and> c < (cfg_width script_config - 800) div 2 + 800
           then resize_nearest [[black, black]] 800 400 ! (r - (cfg_height script_config - 400) div 2)
                  ! (c - (cfg_width script_config - 800) div 2)
           else black) [0..<cfg_width script_config]) [0..<cfg_height script_config])"
proof -
  have h: "scaled_size (cfg_width script_config) (cfg_height script_config)
     (image_width [[black, black]]) (length [[black, black]]) = Inr (800, 400)"
    by (simp add: scaled_size_def scale_of_def image_width_def)
  have p: "0 < (800::nat)" "0 < (400::nat)" by simp_all
  show ?thesis
    using resize_nearest_ok h normalize_result [OF resize_nearest_ok h p] by (intro conjI)
qed

lemma normalize_resize_error:
  assumes "0 < length img" "cfg_width cfg * length img < image_width img"
  shows "normalize cfg resize img = Inl ResizeError"
proof -
  let ?w = "image_width img" and ?h = "length img" and ?tw = "cfg_width cfg"
  have w: "0 < ?w" using assms by linarith
  show ?thesis
  proof (cases "?tw * ?h \<le> cfg_height cfg * ?w")
    case True
    have "?h * ?tw div ?w = 0" using assms(2) by (simp add: mult.commute)
    with True assms(1) w show ?thesis by (simp add: normalize_def scaled_size_closed)
  next
    case False
    then have "cfg_height cfg * ?w < 1 * ?w" using assms(2) by linarith
    then have "cfg_height cfg = 0" by (simp only: mult_less_cancel2) simp
    with False assms(1) w show ?thesis by (simp add: normalize_def scaled_size_closed)
  qed
qed

lemma normalize_Inr_exists:
  assumes "resize_ok resize"
    and "scaled_size (cfg_width cfg) (cfg_height cfg) (image_width img) (length img) = Inr (nw, nh)"
    and "0 < nw" "0 < nh"
  shows "\<exists>c. normalize cfg resize img = Inr c"
proof -
  from scaled_size_le [OF assms(2)] have "nw \<le> cfg_width cfg" "nh \<le> cfg_height cfg" by simp_all
  moreover have "has_shape nw nh (resize img nw nh)"
    using assms(1) by (simp add: resize_ok_def)
  ultimately show ?thesis
    using assms(2-4) by (simp add: normalize_pad_call centered_fits pad_image_fits)
qed

lemma scaled_size_empty_iff:
  assumes "0 < w" "0 < h" "0 < tw" "0 < th" "scaled_size tw th w h = Inr (nw, nh)"
  shows "(nw = 0 \<or> nh = 0) \<longleftrightarrow> tw * h < w \<or> th * w < h"
proof (cases "tw * h \<le> th * w")
  case True
  with assms have n: "nw = tw \<and> nh = h * tw div w" by (auto simp: scaled_size_closed)
  have "h \<le> tw * h" using assms(3) by (cases tw) simp_all
  with True have "\<not> th * w < h" by linarith
  then show ?thesis using n assms(1,3) by (simp add: div_eq_0_iff mult.commute)
next
  case False
  with assms have n: "nw = w * th div h \<and> nh = th" by (auto simp: scaled_size_closed)
  have "w \<le> th * w" using assms(4) by (cases th) simp_all
  with False have "\<not> tw * h < w" by linarith
  then show ?thesis using n assms(2,4) by (simp add: div_eq_0_iff mult.commute)
qed

lemma normalize_Inl_iff:
  assumes "resize_ok resize" "0 < cfg_width cfg" "0 < cfg_height cfg"
  shows "(\<exists>e. normalize cfg resize img = Inl e) \<longleftrightarrow>
         image_width img = 0 \<or> length img = 0 \<or>
         cfg_width cfg * length img < image_width img \<or> cfg_height cfg * image_width img < length img"
proof (cases "image_width img = 0 \<or> length img = 0")
  case True
  then show ?thesis by (auto simp: normalize_def scaled_size_def)
next
  case False
  then have pos: "0 < image_width img" "0 < length img" by simp_all
  then obtain nw nh where s: "scaled_size (cfg_width cfg) (cfg_height cfg) (image_width img) (length img) = Inr (nw, nh)"
    by (cases "scaled_size (cfg_width cfg) (cfg_height cfg) (image_width img) (length img)")
       (auto simp: scaled_size_closed)
  note e = scaled_size_empty_iff [OF pos assms(2,3) s]
  show ?thesis
  proof (cases "nw = 0 \<or> nh = 0")
    case True
    with s e False show ?thesis by (simp add: normalize_def)
  next
    case nz: False
    with normalize_Inr_exists [OF assms(1) s] obtain c where "normalize cfg resize img = Inr c" by auto
    with nz e False show ?thesis by simp
  qed
qed

text \<open>
  C33: The only exceptions normalisation raises are Python's division by zero, exactly for
  an image with no rows or columns, and the resize failure of an image that is not empty;
  numpy's shape error on the slice assignment never happens when \<^verbatim>\<open>cv2.resize\<close>
  returns the size it is asked for.
\<close>

lemma normalize_errors:
  assumes "resize_ok resize" "normalize cfg resize img = Inl e"
  shows "(e = ZeroDivisionError \<and> (image_width img = 0 \<or> length img = 0)) \<or>
         (e = ResizeError \<and> 0 < image_width img \<and> 0 < length img)"
proof (cases "scaled_size (cfg_width cfg) (cfg_height cfg) (image_width img) (length img)")
  case (Inl e')
  then have "e' = ZeroDivisionError \<and> (image_width img = 0 \<or> length img = 0)"
    by (auto simp: scaled_size_def Let_def split: if_splits)
  with Inl assms(2) show ?thesis by (simp add: normalize_def)
next
  case (Inr r)
  obtain nw nh where r: "r = (nw, nh)" by (cases r)
  from Inr r have pos: "0 < image_width img" "0 < length img" by (auto dest: scaled_size_pos)
  show ?thesis
  proof (cases "nw = 0 \<or> nh = 0")
    case True
    with Inr r assms(2) pos show ?thesis by (auto simp: normalize_def)
  next
    case False
    with normalize_Inr_exists [OF assms(1)] Inr r have "\<exists>c. normalize cfg resize img = Inr c"
      by simp
    with assms(2) show ?thesis by simp
  qed
qed

theorem normalize_errors_witness:
  "resize_ok resize_nearest \<and>
   normalize script_config resize_nearest [replicate 1601 black] = Inl ResizeError \<and>
   0 < image_width [replicate 1601 black] \<and> 0 < length [replicate 1601 black]"
proof -
  have n: "normalize script_config resize_nearest [replicate 1601 black] = Inl ResizeError"
    by (simp add: normalize_def scaled_size_def scale_of_def image_width_def)
  show ?thesis using resize_nearest_ok n normalize_errors [OF resize_nearest_ok n]
    by (simp add: image_width_def)
qed

end
