(* ===== verification/Segmenter.thy ===== *)
theory Segmenter
  imports Color_Table
begin

text \<open>
  Colour segmentation (\<^verbatim>\<open>src/y.py\<close> lines 54 and 63): the canvas is converted to
  HSV once per image (\<^verbatim>\<open>cv2.cvtColor\<close>, a per-pixel map: a parameter of the
  pipeline, with OpenCV's 8-bit formula given below as \<open>bgr_to_hsv\<close>), and \<^verbatim>\<open>cv2.inRange\<close> turns it into one mask per
  band: 255 where all three channels lie in the inclusive range, 0 elsewhere.
\<close>

definition cvt_color :: "(pixel \<Rightarrow> pixel) \<Rightarrow> image \<Rightarrow> image" where
  "cvt_color conv img = map (map conv) img"

definition in_band :: "band_range \<Rightarrow> pixel \<Rightarrow> bool" where
  "in_band b p = (case b of ((l0, l1, l2), (u0, u1, u2)) \<Rightarrow> case p of (c0, c1, c2) \<Rightarrow>
     l0 \<le> uint c0 \<and> uint c0 \<le> u0 \<and> l1 \<le> uint c1 \<and> uint c1 \<le> u1 \<and>
     l2 \<le> uint c2 \<and> uint c2 \<le> u2)"

definition in_range_px :: "band_range \<Rightarrow> pixel \<Rightarrow> u8" where
  "in_range_px b p = (if in_band b p then 255 else 0)"

definition in_range :: "image \<Rightarrow> band_range \<Rightarrow> mask" where
  "in_range img b = map (map (in_range_px b)) img"

text \<open>The names of the bands of a table whose range holds a pixel, in table order.\<close>

definition bands_of :: "(string \<times> band_range) list \<Rightarrow> pixel \<Rightarrow> string list" where
  "bands_of t p = map fst (filter (\<lambda>(n, b). in_band b p) t)"

text \<open>
  OpenCV's conversion of an 8-bit BGR pixel to HSV (\<^verbatim>\<open>RGB2HSV_b\<close> in OpenCV's
  \<^verbatim>\<open>color_hsv\<close> source), a candidate for the \<^verbatim>\<open>cv2.cvtColor\<close> parameter: integer
  arithmetic with 12 fractional bits (\<^verbatim>\<open>>>\<close> on \<open>int\<close> is \<open>div\<close>) and two division
  tables rounded by \<^verbatim>\<open>cvRound\<close> (to nearest, ties to even). Hue is halved to 0--179,
  saturation and value are 0--255.
\<close>

definition round_half_even :: "int \<Rightarrow> int \<Rightarrow> int" where
  "round_half_even a b =
     (let q = a div b; r = a mod b
      in if 2 * r < b then q else if 2 * r > b then q + 1 else if even q then q else q + 1)"

definition sdiv_table :: "int \<Rightarrow> int" where
  "sdiv_table v = (if v = 0 then 0 else round_half_even (255 * 4096) v)"

definition hdiv_table :: "int \<Rightarrow> int" where
  "hdiv_table d = (if d = 0 then 0 else round_half_even (180 * 4096) (6 * d))"

text \<open>
  OpenCV's \<^verbatim>\<open>saturate_cast<uchar>\<close>, which stores the hue: values outside 0--255 are
  clipped, not wrapped. Saturation and value are stored with a plain \<open>(uchar)\<close> cast.
\<close>

definition saturate_u8 :: "int \<Rightarrow> u8" where
  "saturate_u8 x = word_of_int (max 0 (min 255 x))"

text \<open>The integer hue, saturation and value that \<^verbatim>\<open>RGB2HSV_b\<close> computes before storing.\<close>

definition hsv_int :: "pixel \<Rightarrow> int \<times> int \<times> int" where
  "hsv_int p = (case p of (b8, g8, r8) \<Rightarrow>
     let b = uint b8; g = uint g8; r = uint r8;
         v = max (max b g) r; vmin = min (min b g) r; diff = v - vmin;
         s = (diff * sdiv_table v + 2048) div 4096;
         h0 = (if v = r then g - b else if v = g then b - r + 2 * diff else r - g + 4 * diff);
         h1 = (h0 * hdiv_table diff + 2048) div 4096;
         h = (if h1 < 0 then h1 + 180 else h1)
     in (h, s, v))"

definition bgr_to_hsv :: "pixel \<Rightarrow> pixel" where
  "bgr_to_hsv p = (case hsv_int p of (h, s, v) \<Rightarrow> (saturate_u8 h, word_of_int s, word_of_int v))"

lemma in_range_shape [grid_simps]: "has_shape w h (in_range img b) = has_shape w h img"
  by (simp add: in_range_def grid_simps)

lemma cvt_color_shape [grid_simps]: "has_shape w h (cvt_color f img) = has_shape w h img"
  by (simp add: cvt_color_def grid_simps)

lemma in_range_nth:
  "r < length img \<Longrightarrow> c < length (img ! r) \<Longrightarrow>
   in_range img b ! r ! c = (if in_band b (img ! r ! c) then 255 else 0)"
  by (simp add: in_range_def in_range_px_def)

lemma in_range_binary: "v \<in> set (concat (in_range img b)) \<Longrightarrow> v = 0 \<or> v = 255"
  by (auto simp: in_range_def in_range_px_def)

lemma in_range_blank:
  "list_all (list_all (\<lambda>p. \<not> in_band b (f p))) img \<Longrightarrow>
   in_range (cvt_color f img) b = map (map (\<lambda>_. 0)) img"
  by (simp add: in_range_def cvt_color_def in_range_px_def list_all_iff)

lemma bands_of_Nil_iff: "bands_of t p = [] \<longleftrightarrow> (\<forall>(n, b) \<in> set t. \<not> in_band b p)"
  by (auto simp: bands_of_def filter_empty_conv)

text \<open>
  C18: A pixel whose HSV value channel is below 100 lies in no band of the script's
  table, so the black letterbox padding and dark pixels are never segmented.
\<close>

lemma dark_in_no_band: "uint v < 100 \<Longrightarrow> bands_of color_names (h, s, v) = []"
  by (simp add: bands_of_def color_names_def in_band_def)

theorem dark_in_no_band_witness:
  "uint (0::u8) < 100 \<and> bands_of color_names (0, 0, 0) = []"
  using dark_in_no_band [of 0 0 0] by simp

text \<open>
  The bands of the table overlap: the HSV pixel (10, 200, 200) lies in both the
  Red and the Orange range, so the same region is boxed and labelled twice.
\<close>

lemma band_overlap_example: "bands_of color_names (10, 200, 200) = [''Red'', ''Orange'']"
  by (simp add: bands_of_def color_names_def in_band_def)

lemma uint_word_of_int_small: "0 \<le> k \<Longrightarrow> k < 256 \<Longrightarrow> uint (word_of_int k :: u8) = k"
  by (simp add: uint_word_of_int_eq take_bit_int_eq_self)

lemma round_half_even_bounds:
  assumes "0 < b"
  shows "2 * a - b \<le> 2 * (round_half_even a b * b) \<and> 2 * (round_half_even a b * b) \<le> 2 * a + b"
proof -
  define q where "q = a div b"
  define r where "r = a mod b"
  have a: "a = q * b + r" unfolding q_def r_def by simp
  have r: "0 \<le> r" "r < b" using assms unfolding r_def by simp_all
  have "round_half_even a b = (if 2 * r < b then q else if 2 * r > b then q + 1 else if even q then q else q + 1)"
    unfolding round_half_even_def Let_def q_def r_def ..
  then show ?thesis using r unfolding a by (simp add: algebra_simps)
qed

lemma sdiv_table_prod:
  assumes "0 \<le> v" "v \<le> 255"
  shows "0 \<le> sdiv_table v \<and> v * sdiv_table v \<le> 1044607"
proof (cases "v = 0")
  case False
  with assms have "0 < v" by simp
  from round_half_even_bounds [OF this, of "255 * 4096"] False
  have "2 * 1044480 - v \<le> 2 * (v * sdiv_table v)" "2 * (v * sdiv_table v) \<le> 2 * 1044480 + v"
    by (simp_all add: sdiv_table_def mult.commute)
  moreover have "0 \<le> v * sdiv_table v \<Longrightarrow> 0 \<le> sdiv_table v"
    using \<open>0 < v\<close> by (simp add: zero_le_mult_iff)
  ultimately show ?thesis using assms by simp
qed (simp add: sdiv_table_def)

lemma hdiv_table_prod:
  assumes "0 \<le> d" "d \<le> 255"
  shows "0 \<le> hdiv_table d \<and> d * hdiv_table d \<le> 123007"
proof (cases "d = 0")
  case False
  with assms have "0 < 6 * d" by simp
  from round_half_even_bounds [OF this, of "180 * 4096"] False
  have "2 * 737280 - 6 * d \<le> 12 * (d * hdiv_table d)" "12 * (d * hdiv_table d) \<le> 2 * 737280 + 6 * d"
    by (simp_all add: hdiv_table_def algebra_simps)
  moreover have "0 \<le> d * hdiv_table d \<Longrightarrow> 0 \<le> hdiv_table d"
    using \<open>0 < 6 * d\<close> by (simp add: zero_le_mult_iff)
  ultimately show ?thesis using assms by simp
qed (simp add: hdiv_table_def)

lemma mult_bound_le: "0 \<le> (H::int) \<Longrightarrow> h0 \<le> m * d \<Longrightarrow> h0 * H \<le> m * (d * H)"
  by (metis mult.assoc mult_right_mono)

lemma mult_bound_ge: "0 \<le> (H::int) \<Longrightarrow> m * d \<le> h0 \<Longrightarrow> m * (d * H) \<le> h0 * H"
  by (metis mult.assoc mult_right_mono)

lemma div_4096_range:
  "(a::int) \<le> x \<Longrightarrow> x \<le> c \<Longrightarrow>
   (a + 2048) div 4096 \<le> (x + 2048) div 4096 \<and> (x + 2048) div 4096 \<le> (c + 2048) div 4096"
  by (simp add: zdiv_mono1)

lemma hsv_sat_bounds:
  fixes b g r :: int
  assumes "0 \<le> b" "b \<le> 255" "0 \<le> g" "g \<le> 255" "0 \<le> r" "r \<le> 255"
  defines "v \<equiv> max (max b g) r" and "d \<equiv> max (max b g) r - min (min b g) r"
  shows "0 \<le> (d * sdiv_table v + 2048) div 4096 \<and> (d * sdiv_table v + 2048) div 4096 \<le> 255"
proof -
  have v: "0 \<le> v" "v \<le> 255" and dv: "0 \<le> d" "d \<le> v"
    using assms unfolding v_def d_def by auto
  with sdiv_table_prod have S: "0 \<le> sdiv_table v" "v * sdiv_table v \<le> 1044607" by auto
  then have "d * sdiv_table v \<le> v * sdiv_table v" "0 \<le> d * sdiv_table v"
    using dv by (simp_all add: mult_right_mono)
  with S div_4096_range [of 0 "d * sdiv_table v" 1044607] show ?thesis by simp
qed

lemma hsv_hue_bounds:
  fixes b g r :: int
  assumes "0 \<le> b" "b \<le> 255" "0 \<le> g" "g \<le> 255" "0 \<le> r" "r \<le> 255"
  defines "v \<equiv> max (max b g) r" and "d \<equiv> max (max b g) r - min (min b g) r"
  defines "h1 \<equiv> ((if v = r then g - b else if v = g then b - r + 2 * d else r - g + 4 * d)
                    * hdiv_table d + 2048) div 4096"
  shows "0 \<le> (if h1 < 0 then h1 + 180 else h1) \<and> (if h1 < 0 then h1 + 180 else h1) < 180"
proof -
  define h0 where "h0 = (if v = r then g - b else if v = g then b - r + 2 * d else r - g + 4 * d)"
  define H where "H = hdiv_table d"
  have d: "0 \<le> d" "d \<le> 255" using assms unfolding d_def by auto
  with hdiv_table_prod have H: "0 \<le> H" "d * H \<le> 123007" unfolding H_def by auto
  have P: "0 \<le> d * H" using d H by simp
  have h1: "h1 = (h0 * H + 2048) div 4096" unfolding h1_def h0_def H_def ..
  have "(- 1) * d \<le> h0 \<and> h0 \<le> 1 * d \<or> 1 * d \<le> h0 \<and> h0 \<le> 5 * d"
    using assms unfolding h0_def v_def d_def by (auto simp: max_def min_def)
  then show ?thesis
  proof
    assume "(- 1) * d \<le> h0 \<and> h0 \<le> 1 * d"
    then have "- 123007 \<le> h0 * H" "h0 * H \<le> 123007"
      using mult_bound_le [OF H(1), of h0 1 d] mult_bound_ge [OF H(1), of "- 1" d h0] H by simp_all
    from div_4096_range [OF this] have "- 30 \<le> h1" "h1 \<le> 30" unfolding h1 by simp_all
    then show ?thesis by simp
  next
    assume "1 * d \<le> h0 \<and> h0 \<le> 5 * d"
    then have "0 \<le> h0 * H" "h0 * H \<le> 615035"
      using mult_bound_le [OF H(1), of h0 5 d] mult_bound_ge [OF H(1), of 1 d h0] H P by simp_all
    from div_4096_range [OF this] have "0 \<le> h1" "h1 \<le> 150" unfolding h1 by simp_all
    then show ?thesis by simp
  qed
qed

lemma uint_u8_range: "0 \<le> uint (x :: u8)" "uint (x :: u8) \<le> 255"
  using uint_lt2p [of x] by simp_all

lemma hsv_int_range:
  "case hsv_int p of (h, s, v) \<Rightarrow> 0 \<le> h \<and> h < 180 \<and> 0 \<le> s \<and> s \<le> 255 \<and> 0 \<le> v \<and> v \<le> 255"
proof (cases p)
  case (fields b8 g8 r8)
  note u = uint_u8_range [of b8] uint_u8_range [of g8] uint_u8_range [of r8]
  have v: "0 \<le> max (max (uint b8) (uint g8)) (uint r8)" "max (max (uint b8) (uint g8)) (uint r8) \<le> 255"
    using u by (simp_all add: le_max_iff_disj)
  show ?thesis
    using hsv_sat_bounds [OF u] hsv_hue_bounds [OF u] v unfolding fields hsv_int_def Let_def
    by (simp only: prod.case)
qed

lemma saturate_u8_id: "0 \<le> x \<Longrightarrow> x \<le> 255 \<Longrightarrow> saturate_u8 x = word_of_int x"
  by (simp add: saturate_u8_def)

lemma bgr_to_hsv_cast:
  "hsv_int p = (h, s, v) \<Longrightarrow> bgr_to_hsv p = (word_of_int h, word_of_int s, word_of_int v)"
  using hsv_int_range [of p] by (simp add: bgr_to_hsv_def saturate_u8_id)

lemma hsv_int_reddish:
  assumes "uint b \<le> 255"
  shows "hsv_int (b, 0, 255) =
    (let h1 = (- uint b * 482 + 2048) div 4096 in if h1 < 0 then h1 + 180 else h1, 255, 255)"
proof -
  have u: "0 \<le> uint b" by simp
  have "hdiv_table 255 = 482" "sdiv_table 255 = 4096" by code_simp+
  with assms u show ?thesis
    by (simp add: hsv_int_def Let_def max_def min_def)
qed

text \<open>
  C25: OpenCV's hue wraps at 180 and the table's Red band covers hues 0--10 only. A
  saturated red with a little blue, BGR \<open>(b, 0, 255)\<close> for \<open>5 \<le> b \<le> 80\<close>, has hue
  171--179 after \<^verbatim>\<open>cvtColor\<close> and lies in no band, so it is never detected.
\<close>

lemma reddish_missed:
  assumes "5 \<le> uint b" "uint b \<le> 80"
  shows "bands_of color_names (bgr_to_hsv (b, 0, 255)) = []"
proof -
  define x where "x = - uint b * 482 + 2048"
  have "-36864 \<le> x" "x \<le> -1" using assms unfolding x_def by simp_all
  then have "-36864 div 4096 \<le> x div 4096" "x div 4096 \<le> -1 div (4096::int)"
    by (simp_all only: zdiv_mono1)
  then have lo: "-9 \<le> x div 4096" and hi: "x div 4096 \<le> -1" by simp_all
  define h where "h = x div 4096 + 180"
  have hh: "uint (word_of_int h :: u8) = h" using lo hi unfolding h_def
    by (intro uint_word_of_int_small) simp_all
  have "hsv_int (b, 0, 255) = (h, 255, 255)"
    using assms hi unfolding h_def x_def by (simp add: hsv_int_reddish Let_def)
  then have "bgr_to_hsv (b, 0, 255) = (word_of_int h, 255, 255)"
    by (simp add: bgr_to_hsv_cast)
  with hh lo hi show ?thesis
    unfolding h_def by (simp add: bands_of_def color_names_def in_band_def)
qed

theorem reddish_missed_witness:
  "5 \<le> uint (20::u8) \<and> uint (20::u8) \<le> 80 \<and> bgr_to_hsv (20, 0, 255) = (178, 255, 255) \<and>
   bands_of color_names (bgr_to_hsv (20, 0, 255)) = [] \<and> bgr_to_hsv (0, 0, 255) = (0, 255, 255)"
proof -
  have h: "5 \<le> uint (20::u8)" "uint (20::u8) \<le> 80" by simp_all
  have v: "bgr_to_hsv (20, 0, 255) = (178, 255, 255)" "bgr_to_hsv (0, 0, 255) = (0, 255, 255)"
    by code_simp+
  show ?thesis using h v reddish_missed [OF h] by simp
qed


end
