(* ===== verification/Regions.thy ===== *)
theory Regions
  imports Prelude
begin

text \<open>
  Region extraction (\<^verbatim>\<open>src/y.py\<close> lines 66--78). \<^verbatim>\<open>cv2.findContours\<close> is OpenCV's
  border-following algorithm and stays a parameter of the pipeline; what the script does
  with its result is modelled here: the polygon area \<^verbatim>\<open>cv2.contourArea\<close> (the
  shoelace formula, as OpenCV computes it, from the last point round to the first),
  the bounding box \<^verbatim>\<open>cv2.boundingRect\<close>, Python's stable descending
  \<^verbatim>\<open>sorted(..., key=cv2.contourArea, reverse=True)\<close>, and the loop that stops at
  the first contour below \<^verbatim>\<open>min_area\<close>.
\<close>

section \<open>Area and bounding box of a contour\<close>

fun shoelace :: "point \<Rightarrow> contour \<Rightarrow> int" where
  "shoelace prev [] = 0"
| "shoelace (px, py) ((x, y) # ps) = (px * y - py * x) + shoelace (x, y) ps"

definition contour_area :: "contour \<Rightarrow> rat" where
  "contour_area c = (case c of [] \<Rightarrow> 0 | _ \<Rightarrow> \<bar>of_int (shoelace (last c) c)\<bar> / 2)"

definition bounding_rect :: "contour \<Rightarrow> rect" where
  "bounding_rect c = (case c of [] \<Rightarrow> (0, 0, 0, 0) | _ \<Rightarrow>
     (let xs = map fst c; ys = map snd c;
          x0 = Min (set xs); y0 = Min (set ys)
      in (x0, y0, Max (set xs) - x0 + 1, Max (set ys) - y0 + 1)))"

section \<open>Sorting and the loop with break\<close>

text \<open>
  Python's \<^verbatim>\<open>sorted\<close> is stable also with \<^verbatim>\<open>reverse=True\<close> (contours of equal
  area keep their order), which is \<open>sort_key\<close> on the negated key.
\<close>

definition sort_contours :: "contour list \<Rightarrow> contour list" where
  "sort_contours cs = sort_key (\<lambda>c. - contour_area c) cs"

fun take_regions :: "rat \<Rightarrow> contour list \<Rightarrow> contour list" where
  "take_regions t [] = []"
| "take_regions t (c # cs) = (if contour_area c < t then [] else c # take_regions t cs)"

definition select_regions :: "rat \<Rightarrow> contour list \<Rightarrow> contour list" where
  "select_regions t cs = take_regions t (sort_contours cs)"

text \<open>
  The contour \<^verbatim>\<open>cv2.findContours\<close> (\<^verbatim>\<open>CHAIN_APPROX_SIMPLE\<close>) returns for a
  solid axis-aligned block of \<open>w\<close> by \<open>h\<close> pixels: its four corner pixels, the
  top-left first, anticlockwise on screen.
\<close>

definition rect_contour :: "int \<Rightarrow> int \<Rightarrow> int \<Rightarrow> int \<Rightarrow> contour" where
  "rect_contour x y w h = [(x, y), (x, y + h - 1), (x + w - 1, y + h - 1), (x + w - 1, y)]"

section \<open>Lemmas\<close>

lemma take_regions_takeWhile:
  "take_regions t cs = takeWhile (\<lambda>c. t \<le> contour_area c) cs"
  by (induction cs) auto

lemma sort_contours_desc:
  "sorted_wrt (\<lambda>a b. contour_area b \<le> contour_area a) (sort_contours cs)"
proof -
  have "sorted (map (\<lambda>c. - contour_area c) (sort_contours cs))"
    unfolding sort_contours_def by (rule sorted_sort_key)
  then show ?thesis by (simp add: sorted_map sorted_wrt_iff_nth_less)
qed

lemma mset_sort_contours [simp]: "mset (sort_contours cs) = mset cs"
  by (simp add: sort_contours_def)

lemma set_sort_contours [simp]: "set (sort_contours cs) = set cs"
  by (simp add: sort_contours_def)

lemma set_select_regions_sub: "set (select_regions t cs) \<subseteq> set cs"
  by (auto simp: select_regions_def take_regions_takeWhile dest: set_takeWhileD)

lemma select_regions_Nil [simp]: "select_regions t [] = []"
  by (simp add: select_regions_def sort_contours_def)

lemma select_regions_single: "t \<le> contour_area c \<Longrightarrow> select_regions t [c] = [c]"
  by (simp add: select_regions_def sort_contours_def)

lemma contour_area_nonempty:
  "c \<noteq> [] \<Longrightarrow> contour_area c = \<bar>of_int (shoelace (last c) c)\<bar> / 2"
  by (cases c) (simp_all add: contour_area_def)

lemma shoelace_rect_contour:
  "shoelace (last (rect_contour x y w h)) (rect_contour x y w h) = - 2 * ((w - 1) * (h - 1))"
  by (simp add: rect_contour_def algebra_simps)

text \<open>
  Python's \<^verbatim>\<open>sorted(cs, key=cv2.contourArea, reverse=True)\<close> is the one
  permutation of \<open>cs\<close> that is descending by area and keeps contours of equal area in
  their original order; \<open>sort_contours\<close> has these properties, and no other list has.
\<close>

lemma sort_contours_stable:
  "filter (\<lambda>c. contour_area c = k) (sort_contours cs) = filter (\<lambda>c. contour_area c = k) cs"
proof -
  have "filter (\<lambda>c. - contour_area c = - k) (sort_key (\<lambda>c. - contour_area c) cs)
        = filter (\<lambda>c. - contour_area c = - k) cs"
    by (rule sort_key_stable)
  then show ?thesis by (simp add: sort_contours_def)
qed

text \<open>
  C10: The sort of line 69 is Python's stable descending sort: any permutation of the
  contours that is descending by area and keeps equal-area contours in their original
  order is the list \<open>sort_contours\<close> returns.
\<close>

lemma sort_contours_unique:
  assumes "mset ys = mset cs"
    and "sorted_wrt (\<lambda>a b. contour_area b \<le> contour_area a) ys"
    and "\<And>k. filter (\<lambda>c. contour_area c = k) ys = filter (\<lambda>c. contour_area c = k) cs"
  shows "sort_contours cs = ys"
  unfolding sort_contours_def
proof (rule properties_for_sort_key)
  show "mset ys = mset cs" by (fact assms(1))
  show "sorted (map (\<lambda>c. - contour_area c) ys)"
    using assms(2) by (simp add: sorted_map sorted_wrt_iff_nth_less)
  fix k
  show "filter (\<lambda>x. - contour_area k = - contour_area x) ys
        = filter (\<lambda>x. - contour_area k = - contour_area x) cs"
    using assms(3) [of "contour_area k"] by (simp add: eq_commute)
qed

theorem sort_contours_unique_witness:
  "mset [rect_contour 0 0 5 5, rect_contour 0 0 3 3] = mset [rect_contour 0 0 3 3, rect_contour 0 0 5 5] \<and>
   sorted_wrt (\<lambda>a b. contour_area b \<le> contour_area a) [rect_contour 0 0 5 5, rect_contour 0 0 3 3] \<and>
   (\<forall>k. filter (\<lambda>c. contour_area c = k) [rect_contour 0 0 5 5, rect_contour 0 0 3 3] =
         filter (\<lambda>c. contour_area c = k) [rect_contour 0 0 3 3, rect_contour 0 0 5 5]) \<and>
   sort_contours [rect_contour 0 0 3 3, rect_contour 0 0 5 5] = [rect_contour 0 0 5 5, rect_contour 0 0 3 3]"
proof -
  have a: "contour_area (rect_contour 0 0 5 5) = 16" "contour_area (rect_contour 0 0 3 3) = 4"
    by (simp_all add: contour_area_def rect_contour_def)
  have h1: "mset [rect_contour 0 0 5 5, rect_contour 0 0 3 3] = mset [rect_contour 0 0 3 3, rect_contour 0 0 5 5]"
    by simp
  have h2: "sorted_wrt (\<lambda>a b. contour_area b \<le> contour_area a) [rect_contour 0 0 5 5, rect_contour 0 0 3 3]"
    by (simp add: a)
  have ne: "rect_contour 0 0 5 5 \<noteq> rect_contour 0 0 3 3"
    by (simp add: rect_contour_def)
  have h3: "filter (\<lambda>c. contour_area c = k) [rect_contour 0 0 5 5, rect_contour 0 0 3 3] =
         filter (\<lambda>c. contour_area c = k) [rect_contour 0 0 3 3, rect_contour 0 0 5 5]" for k
    by (simp add: a)
  show ?thesis using h1 h2 h3 sort_contours_unique [OF h1 h2 h3] by simp
qed

text \<open>
  The loop of lines 72--75 stops at the first contour below the threshold; on the
  descending list that is the same as skipping each small contour.
\<close>

lemma take_regions_desc_filter:
  "sorted_wrt (\<lambda>a b. contour_area b \<le> contour_area a) cs \<Longrightarrow>
   take_regions t cs = filter (\<lambda>c. t \<le> contour_area c) cs"
  unfolding take_regions_takeWhile
  by (rule takeWhile_sorted_filter, rule sorted_wrt_desc_mono)

text \<open>
  C6: The loop of lines 72--75 stops at the first contour below \<^verbatim>\<open>min_area\<close>;
  because the contours are sorted by descending area first, this short-circuit emits
  exactly the contours that reach the threshold, in sorted order, as a filter would.
\<close>

lemma select_regions_eq_filter:
  "select_regions t cs = filter (\<lambda>c. t \<le> contour_area c) (sort_contours cs)"
  by (simp add: select_regions_def take_regions_desc_filter sort_contours_desc)

text \<open>
  C7: The regions annotated for a band are, counted with multiplicity, exactly the
  band's contours whose area reaches the threshold: none is lost, none is repeated.
\<close>

lemma mset_select_regions:
  "mset (select_regions t cs) = mset (filter (\<lambda>c. t \<le> contour_area c) cs)"
  by (simp add: select_regions_def take_regions_desc_filter sort_contours_desc)


text \<open>
  C8: The annotated regions of a band come in descending order of area.
\<close>

lemma select_regions_desc:
  "sorted_wrt (\<lambda>a b. contour_area b \<le> contour_area a) (select_regions t cs)"
  unfolding select_regions_def take_regions_desc_filter [OF sort_contours_desc]
  by (rule sorted_wrt_filter, rule sort_contours_desc)

text \<open>
  C23: \<^verbatim>\<open>cv2.contourArea\<close> of the contour of a solid block of \<open>w\<close> by \<open>h\<close>
  pixels is \<open>(w - 1) * (h - 1)\<close>, not the pixel count \<open>w * h\<close>.
\<close>

lemma rect_contour_area:
  "contour_area (rect_contour x y w h) = of_int \<bar>(w - 1) * (h - 1)\<bar>"
proof -
  have ne: "rect_contour x y w h \<noteq> []" by (simp add: rect_contour_def)
  have "contour_area (rect_contour x y w h) = \<bar>of_int (- 2 * ((w - 1) * (h - 1)))\<bar> / (2::rat)"
    by (simp only: contour_area_nonempty [OF ne] shoelace_rect_contour)
  then show ?thesis by (simp add: abs_mult)
qed

text \<open>
  \<^verbatim>\<open>cv2.boundingRect\<close> of that contour is the block itself: its top-left
  corner and its width and height in pixels.
\<close>

lemma rect_contour_bbox:
  "1 \<le> w \<Longrightarrow> 1 \<le> h \<Longrightarrow> bounding_rect (rect_contour x y w h) = (x, y, w, h)"
  by (simp add: bounding_rect_def rect_contour_def Let_def min_def max_def)

theorem rect_contour_bbox_witness:
  "1 \<le> (70::int) \<and> 1 \<le> (100::int) \<and> bounding_rect (rect_contour 10 20 70 100) = (10, 20, 70, 100)"
  using rect_contour_bbox [of 70 100 10 20] by simp

theorem rect_contour_area_block_7000:
  "contour_area (rect_contour 10 20 70 100) = 6831 \<and> select_regions 7000 [rect_contour 10 20 70 100] = []"
  by (simp add: select_regions_def sort_contours_def contour_area_def rect_contour_def)

lemma image_witness: "m \<in> f ` A \<Longrightarrow> \<exists>p\<in>A. f p = m"
  by blast

text \<open>
  C39: \<^verbatim>\<open>cv2.boundingRect\<close> as modelled (line 78) is the tightest upright box around
  a non-empty contour: every point lies inside the half-open box \<open>[x, x + w) \<times> [y, y + h)\<close>,
  and a point of the contour touches each of its four sides.
\<close>

lemma bounding_rect_tight:
  assumes "c \<noteq> []" "bounding_rect c = (x, y, w, h)"
  shows "(\<forall>p\<in>set c. x \<le> fst p \<and> fst p < x + w \<and> y \<le> snd p \<and> snd p < y + h) \<and>
         (\<exists>p\<in>set c. fst p = x) \<and> (\<exists>p\<in>set c. fst p = x + w - 1) \<and>
         (\<exists>p\<in>set c. snd p = y) \<and> (\<exists>p\<in>set c. snd p = y + h - 1)"
proof -
  have e: "set (map fst c) \<noteq> {}" "set (map snd c) \<noteq> {}" using assms(1) by simp_all
  from assms have r: "x = Min (fst ` set c)" "y = Min (snd ` set c)"
    "w = Max (fst ` set c) - x + 1" "h = Max (snd ` set c) - y + 1"
    by (auto simp: bounding_rect_def Let_def neq_Nil_conv)
  have xw: "x + w = Max (fst ` set c) + 1" "x + w - 1 = Max (fst ` set c)"
    and yh: "y + h = Max (snd ` set c) + 1" "y + h - 1 = Max (snd ` set c)"
    unfolding r by simp_all
  have mem: "Min (fst ` set c) \<in> fst ` set c" "Max (fst ` set c) \<in> fst ` set c"
    "Min (snd ` set c) \<in> snd ` set c" "Max (snd ` set c) \<in> snd ` set c"
    using e by simp_all
  have "\<forall>p\<in>set c. x \<le> fst p \<and> fst p < x + w \<and> y \<le> snd p \<and> snd p < y + h"
    unfolding xw(1) yh(1) unfolding r(1,2) by simp
  moreover have "\<exists>p\<in>set c. fst p = x" "\<exists>p\<in>set c. fst p = x + w - 1"
    "\<exists>p\<in>set c. snd p = y" "\<exists>p\<in>set c. snd p = y + h - 1"
    unfolding xw(2) yh(2) unfolding r(1,2) using mem by (simp_all only: image_witness)
  ultimately show ?thesis by blast
qed

theorem bounding_rect_tight_witness:
  "[(1, 2), (3, 5), (2, 4)] \<noteq> ([] :: contour) \<and>
   bounding_rect [(1, 2), (3, 5), (2, 4)] = (1, 2, 3, 4) \<and>
   list_all (\<lambda>p. 1 \<le> fst p \<and> fst p < 4 \<and> 2 \<le> snd p \<and> snd p < 6) [(1, 2), (3, 5), (2, 4) :: point]"
proof -
  have n: "[(1, 2), (3, 5), (2, 4)] \<noteq> ([] :: contour)" by simp
  have b: "bounding_rect [(1, 2), (3, 5), (2, 4)] = (1, 2, 3, 4)"
    by (simp add: bounding_rect_def)
  from bounding_rect_tight [OF n b] have "\<forall>p\<in>set [(1, 2), (3, 5), (2, 4) :: point].
      1 \<le> fst p \<and> fst p < 1 + 3 \<and> 2 \<le> snd p \<and> snd p < 2 + 4" by blast
  with n b show ?thesis by (simp add: list_all_iff)
qed

end
