(* ===== verification/Labels.thy ===== *)
theory Labels
  imports Prelude
begin

text \<open>
  Label placement (\<^verbatim>\<open>src/y.py\<close> lines 82--89): the default anchor above or below the
  box, then one pass over the anchors placed so far for this image that moves the label
  to 30 below the first anchor it collides with and stops there. The abstract
  description \<open>resolve_spec\<close> states the same with \<open>find\<close>; \<open>resolve_anchor\<close>
  refines it. The greedy pass does not guarantee labels apart from each other: the
  counterexamples at the end are two ways it fails.
\<close>

definition default_anchor :: "rect \<Rightarrow> point" where
  "default_anchor r = (case r of (x, y, w, h) \<Rightarrow> (x, if y - 10 > 10 then y - 10 else y + h + 20))"

definition overlaps :: "point \<Rightarrow> point \<Rightarrow> bool" where
  "overlaps a p = (case a of (tx, ty) \<Rightarrow> case p of (px, py) \<Rightarrow>
     \<bar>tx - px\<bar> < 100 \<and> \<bar>ty - py\<bar> < 30)"

fun resolve_anchor :: "point \<Rightarrow> point list \<Rightarrow> point" where
  "resolve_anchor a [] = a"
| "resolve_anchor (tx, ty) ((px, py) # ps) =
     (if overlaps (tx, ty) (px, py) then (tx, py + 30) else resolve_anchor (tx, ty) ps)"

definition place_label :: "rect \<Rightarrow> point list \<Rightarrow> point" where
  "place_label r ps = resolve_anchor (default_anchor r) ps"

text \<open>The contract: the first placed anchor that collides decides the shift.\<close>

definition resolve_spec :: "point \<Rightarrow> point list \<Rightarrow> point" where
  "resolve_spec a ps = (case find (overlaps a) ps of None \<Rightarrow> a | Some p \<Rightarrow> (fst a, snd p + 30))"

text \<open>
  All labels of one image, in placement order: each box's anchor is resolved against
  the anchors placed before it and appended (line 101).
\<close>

fun place_all :: "point list \<Rightarrow> rect list \<Rightarrow> point list" where
  "place_all ps [] = ps"
| "place_all ps (r # rs) = place_all (ps @ [place_label r ps]) rs"

section \<open>Lemmas\<close>

lemma resolve_anchor_Cons:
  "resolve_anchor a (p # ps) = (if overlaps a p then (fst a, snd p + 30) else resolve_anchor a ps)"
  by (cases a, cases p) simp

text \<open>
  C1: The collision pass of lines 86--89 implements its contract: the label keeps its
  default anchor when no anchor placed before it is within 100 horizontally and 30
  vertically, and otherwise moves to 30 below the first such anchor in placement order.
\<close>

lemma resolve_anchor_refines: "resolve_anchor a ps = resolve_spec a ps"
proof (induction ps)
  case Nil
  show ?case by (simp add: resolve_spec_def)
next
  case (Cons p ps)
  then show ?case by (cases a, cases p) (simp add: resolve_spec_def)
qed

lemma resolve_anchor_x [simp]: "fst (resolve_anchor a ps) = fst a"
  by (induction ps) (simp_all add: resolve_anchor_Cons)

text \<open>
  C3: The moved label no longer collides with the anchor that made it move.
\<close>

lemma resolve_anchor_clears_first:
  "find (overlaps a) ps = Some p \<Longrightarrow> \<not> overlaps (resolve_anchor a ps) p"
proof (induction ps)
  case Nil
  then show ?case by simp
next
  case (Cons q ps)
  then show ?case by (cases a, cases q) (auto simp: overlaps_def split: if_splits)
qed

theorem resolve_anchor_clears_first_witness:
  "find (overlaps (0, 100)) [(0, 130), (0, 100)] = Some (0, 100) \<and>
   \<not> overlaps (resolve_anchor (0, 100) [(0, 130), (0, 100)]) (0, 100)"
proof -
  have h: "find (overlaps (0, 100)) [(0, 130), (0, 100)] = Some ((0::int), (100::int))"
    by (simp add: overlaps_def)
  show ?thesis using h resolve_anchor_clears_first [OF h] by simp
qed

lemma resolve_anchor_free:
  "\<forall>p \<in> set ps. \<not> overlaps a p \<Longrightarrow> resolve_anchor a ps = a"
  by (induction ps) (simp_all add: resolve_anchor_Cons)



text \<open>
  C5: The default anchor (line 83) is 10 above the box top when the top lies lower than
  y = 20, and otherwise below the box's bottom edge, never inside the box's rows.
\<close>

lemma default_anchor_outside_box:
  "0 \<le> h \<Longrightarrow> default_anchor (x, y, w, h) = (x, ay) \<Longrightarrow>
   (20 < y \<and> ay = y - 10) \<or> (y \<le> 20 \<and> y + h < ay)"
  by (auto simp: default_anchor_def split: if_splits)

theorem default_anchor_outside_box_witness:
  "0 \<le> (40::int) \<and> default_anchor (7, 5, 30, 40) = (7, 65) \<and> 5 \<le> (20::int) \<and> 5 + 40 < (65::int)
   \<and> default_anchor (7, 50, 30, 40) = (7, 40)"
  using default_anchor_outside_box [of 40 7 5 30 65] by (simp add: default_anchor_def)

text \<open>
  C26: Placing the labels of an image only appends: the anchors placed earlier are never
  changed or removed, and each box adds exactly one anchor.
\<close>

lemma place_all_append_only:
  "\<exists>new. place_all ps rs = ps @ new \<and> length new = length rs"
proof (induction rs arbitrary: ps)
  case Nil
  show ?case by simp
next
  case (Cons r rs)
  then obtain new where "place_all (ps @ [place_label r ps]) rs = (ps @ [place_label r ps]) @ new"
    and "length new = length rs" by blast
  then show ?case by (intro exI [of _ "place_label r ps # new"]) simp
qed


end
