(* ===== verification/Annotator.thy ===== *)
theory Annotator
  imports Prelude
begin

text \<open>
  The drawing calls of \<^verbatim>\<open>src/y.py\<close> (lines 79 and 92--98) as values: a
  \<^verbatim>\<open>cv2.rectangle\<close> or \<^verbatim>\<open>cv2.putText\<close> call with its arguments. Rasterising them
  is OpenCV's business and is a parameter of the pipeline (\<open>cv_draw\<close> in
  \<open>Pipeline\<close>); what the script decides, where and in which colour each call draws,
  is modelled here. Colours are BGR triples.
\<close>

datatype draw_op =
    Rectangle point point pixel int
  | PutText string point pixel int

definition box_color :: pixel where
  "box_color = (0, 255, 0)"

definition text_color :: pixel where
  "text_color = (0, 0, 0)"

text \<open>Line 79: the box outline, thickness 2.\<close>

definition box_op :: "rect \<Rightarrow> draw_op" where
  "box_op r = (case r of (x, y, w, h) \<Rightarrow> Rectangle (x, y) (x + w, y + h) box_color 2)"

text \<open>
  Lines 92--94: the filled (thickness -1) label background, from the text size
  \<open>(tw, th)\<close> that \<^verbatim>\<open>cv2.getTextSize\<close> reports for the band name.
\<close>

definition label_bg_op :: "int \<times> int \<Rightarrow> point \<Rightarrow> draw_op" where
  "label_bg_op ts a = (case ts of (tw, th) \<Rightarrow> case a of (tx, ty) \<Rightarrow>
     Rectangle (tx, ty - th - 5) (tx + tw + 5, ty + 5) box_color (-1))"

text \<open>Lines 97--98: the band name at the anchor, thickness 2.\<close>

definition label_text_op :: "string \<Rightarrow> point \<Rightarrow> draw_op" where
  "label_text_op name a = PutText name a text_color 2"

fun is_box :: "draw_op \<Rightarrow> bool" where
  "is_box (Rectangle _ _ _ t) = (t = 2)"
| "is_box (PutText _ _ _ _) = False"

text \<open>The texts of the \<^verbatim>\<open>putText\<close> calls among some drawing calls, in order.\<close>

definition label_texts :: "draw_op list \<Rightarrow> string list" where
  "label_texts ops = concat (map (\<lambda>op. case op of PutText s _ _ _ \<Rightarrow> [s] | Rectangle _ _ _ _ \<Rightarrow> []) ops)"

end
