(* ===== verification/Pipeline.thy ===== *)
theory Pipeline
  imports Normalizer Segmenter Regions Labels Annotator
begin

text \<open>
  The per-image loop of \<^verbatim>\<open>src/y.py\<close> (lines 39--101) and the batch around it
  (lines 28--36 and 103--108). OpenCV is a record of functions \<open>cv_lib\<close>: decoding,
  resizing, the per-pixel HSV conversion, contour finding, text measuring, drawing and
  encoding. The per-image state is the record \<open>img_state\<close>: the canvas
  \<^verbatim>\<open>padded_image\<close>, \<^verbatim>\<open>contour_count\<close>, \<^verbatim>\<open>text_positions\<close>, and the list of
  drawing calls made so far (a ghost field that records the calls in order).
\<close>

record cv_lib =
  cv_imread :: "string \<Rightarrow> image option"
  cv_resize :: "image \<Rightarrow> nat \<Rightarrow> nat \<Rightarrow> image"
  cv_hsv :: "pixel \<Rightarrow> pixel"
  cv_find_contours :: "mask \<Rightarrow> contour list"
  cv_text_size :: "string \<Rightarrow> int \<times> int"
  cv_draw :: "image \<Rightarrow> draw_op \<Rightarrow> image"
  cv_imwrite :: "string \<Rightarrow> image \<Rightarrow> bool"

record img_state =
  canvas :: image
  contour_count :: nat
  text_positions :: "point list"
  drawn :: "draw_op list"

definition init_state :: "image \<Rightarrow> img_state" where
  "init_state padded = \<lparr>canvas = padded, contour_count = 0, text_positions = [], drawn = []\<rparr>"

definition draw :: "cv_lib \<Rightarrow> draw_op \<Rightarrow> img_state \<Rightarrow> img_state" where
  "draw lib op st = st\<lparr>canvas := cv_draw lib (canvas st) op, drawn := drawn st @ [op]\<rparr>"

text \<open>One surviving contour: lines 78--101.\<close>

definition process_contour :: "cv_lib \<Rightarrow> string \<Rightarrow> img_state \<Rightarrow> contour \<Rightarrow> img_state" where
  "process_contour lib name st c =
     (let r = bounding_rect c;
          st1 = draw lib (box_op r) st;
          a = resolve_anchor (default_anchor r) (text_positions st1);
          st2 = draw lib (label_bg_op (cv_text_size lib name) a) st1;
          st3 = draw lib (label_text_op name a) st2
      in st3\<lparr>contour_count := Suc (contour_count st3), text_positions := text_positions st3 @ [a]\<rparr>)"

text \<open>Lines 72--75 with the body above: stop at the first contour below the threshold.\<close>

fun band_loop :: "cv_lib \<Rightarrow> rat \<Rightarrow> string \<Rightarrow> contour list \<Rightarrow> img_state \<Rightarrow> img_state" where
  "band_loop lib t name [] st = st"
| "band_loop lib t name (c # cs) st =
     (if contour_area c < t then st else band_loop lib t name cs (process_contour lib name st c))"

text \<open>One band: lines 61--75.\<close>

definition process_band ::
  "cv_lib \<Rightarrow> rat \<Rightarrow> image \<Rightarrow> string \<times> band_range \<Rightarrow> img_state \<Rightarrow> img_state" where
  "process_band lib t hsv nb st = (case nb of (name, b) \<Rightarrow>
     band_loop lib t name (sort_contours (cv_find_contours lib (in_range hsv b))) st)"

text \<open>One decoded image: lines 39--101.\<close>

definition process_image :: "cv_lib \<Rightarrow> config \<Rightarrow> image \<Rightarrow> py_error + img_state" where
  "process_image lib cfg img =
     (case normalize cfg (cv_resize lib) img of
        Inl e \<Rightarrow> Inl e
      | Inr padded \<Rightarrow>
          (let hsv = cvt_color (cv_hsv lib) padded
           in Inr (fold (process_band lib (cfg_min_area cfg) hsv) (cfg_bands cfg) (init_state padded))))"

text \<open>
  The states the per-image loop can reach from a normalised canvas: every surviving
  contour of every band is one \<open>process_contour\<close> step.
\<close>

inductive img_reach :: "cv_lib \<Rightarrow> image \<Rightarrow> img_state \<Rightarrow> bool" for lib :: cv_lib and base :: image where
  start: "img_reach lib base (init_state base)"
| step: "img_reach lib base st \<Longrightarrow> img_reach lib base (process_contour lib name st c)"

definition img_inv :: "cv_lib \<Rightarrow> image \<Rightarrow> img_state \<Rightarrow> bool" where
  "img_inv lib base st \<longleftrightarrow>
     contour_count st = length (text_positions st) \<and>
     length (drawn st) = 3 * contour_count st \<and>
     canvas st = fold (\<lambda>op img. cv_draw lib img op) (drawn st) base"

text \<open>
  The (band name, contour) pairs the per-image loop visits, in order: for each band of
  the table, its surviving contours in descending-area order.
\<close>

definition image_regions ::
  "cv_lib \<Rightarrow> rat \<Rightarrow> image \<Rightarrow> (string \<times> band_range) list \<Rightarrow> (string \<times> contour) list" where
  "image_regions lib t hsv bs =
     concat (map (\<lambda>(name, b). map (Pair name) (select_regions t (cv_find_contours lib (in_range hsv b)))) bs)"

text \<open>What the script needs of the drawing calls: they keep the canvas shape.\<close>

definition draw_ok :: "cv_lib \<Rightarrow> bool" where
  "draw_ok lib \<longleftrightarrow> (\<forall>img op w h. has_shape w h img \<longrightarrow> has_shape w h (cv_draw lib img op))"

text \<open>
  A small instance for concrete runs: a 4 by 4 canvas, the script's colour table, a
  two-pixel red image and a two-pixel black one, and a library with OpenCV's HSV
  conversion \<open>bgr_to_hsv\<close>, a contour finder that reports one 2 by 4 block for any mask
  with a set pixel, and drawing that leaves the canvas as it is.
\<close>

definition demo_cfg :: config where
  "demo_cfg = \<lparr>cfg_width = 4, cfg_height = 4, cfg_min_area = 1, cfg_bands = color_names,
               cfg_image_folder = ''in/'', cfg_output_folder = ''out/''\<rparr>"

definition demo_img :: image where
  "demo_img = [[(0, 0, 255), (0, 0, 255)]]"

definition demo_dark_img :: image where
  "demo_dark_img = [[black, black]]"

definition demo_lib :: cv_lib where
  "demo_lib =
    \<lparr>cv_imread = (\<lambda>p. if p = ''in/a.png'' then Some demo_img
                     else if p = ''in/wide.png'' then Some [replicate 5 black] else None),
     cv_resize = resize_nearest,
     cv_hsv = bgr_to_hsv,
     cv_find_contours = (\<lambda>m. if 255 \<in> set (concat m) then [rect_contour 0 1 4 2] else []),
     cv_text_size = (\<lambda>s. (30, 12)),
     cv_draw = (\<lambda>img op. img),
     cv_imwrite = (\<lambda>p img. True)\<rparr>"

text \<open>The same library with every pixel's HSV value in the overlap of the Red and Orange bands.\<close>

definition demo_overlap_lib :: cv_lib where
  "demo_overlap_lib = demo_lib\<lparr>cv_hsv := (\<lambda>p. (10, 200, 200))\<rparr>"

section \<open>Lemmas\<close>

lemma process_contour_simps:
  "contour_count (process_contour lib name st c) = Suc (contour_count st)"
  "text_positions (process_contour lib name st c) =
     text_positions st @ [place_label (bounding_rect c) (text_positions st)]"
  "drawn (process_contour lib name st c) = drawn st @
     [box_op (bounding_rect c),
      label_bg_op (cv_text_size lib name) (place_label (bounding_rect c) (text_positions st)),
      label_text_op name (place_label (bounding_rect c) (text_positions st))]"
  "canvas (process_contour lib name st c) =
     fold (\<lambda>op img. cv_draw lib img op) [box_op (bounding_rect c),
      label_bg_op (cv_text_size lib name) (place_label (bounding_rect c) (text_positions st)),
      label_text_op name (place_label (bounding_rect c) (text_positions st))] (canvas st)"
  by (simp_all add: process_contour_def draw_def place_label_def Let_def)

lemma band_loop_fold:
  "band_loop lib t name cs st = fold (\<lambda>c st. process_contour lib name st c) (take_regions t cs) st"
  by (induction cs arbitrary: st) simp_all

lemma process_band_fold:
  "process_band lib t hsv (name, b) st =
   fold (\<lambda>c st. process_contour lib name st c) (select_regions t (cv_find_contours lib (in_range hsv b))) st"
  by (simp add: process_band_def band_loop_fold select_regions_def)

lemma img_reach_inv: "img_reach lib base st \<Longrightarrow> img_inv lib base st"
proof (induction rule: img_reach.induct)
  case start
  show ?case by (simp add: img_inv_def init_state_def)
next
  case (step st name c)
  then show ?case by (simp add: img_inv_def process_contour_simps)
qed

lemma img_reach_fold:
  "img_reach lib base st \<Longrightarrow> img_reach lib base (fold (\<lambda>c st. process_contour lib name st c) cs st)"
  by (induction cs arbitrary: st) (simp_all add: img_reach.step)

lemma img_reach_bands:
  "img_reach lib base st \<Longrightarrow> img_reach lib base (fold (process_band lib t hsv) bs st)"
proof (induction bs arbitrary: st)
  case Nil
  then show ?case by simp
next
  case (Cons nb bs)
  obtain name b where nb: "nb = (name, b)" by (cases nb)
  from Cons.prems have "img_reach lib base (process_band lib t hsv nb st)"
    by (simp add: nb process_band_fold img_reach_fold)
  then show ?case by (simp add: Cons.IH)
qed

lemma process_image_reach:
  "process_image lib cfg img = Inr st \<Longrightarrow>
   \<exists>base. normalize cfg (cv_resize lib) img = Inr base \<and> img_reach lib base st"
  by (auto simp: process_image_def Let_def split: sum.splits
           intro: img_reach_bands img_reach.start)
lemma fold_process_band:
  "fold (process_band lib t hsv) bs st =
   fold (\<lambda>(name, c) st. process_contour lib name st c) (image_regions lib t hsv bs) st"
proof (induction bs arbitrary: st)
  case Nil
  then show ?case by (simp add: image_regions_def)
next
  case (Cons nb bs)
  obtain name b where nb: "nb = (name, b)" by (cases nb)
  show ?case
    by (simp add: nb image_regions_def process_band_fold fold_map comp_def Cons.IH [unfolded image_regions_def])
qed

lemma fold_process_contour_positions:
  "text_positions (fold (\<lambda>(name, c) st. process_contour lib name st c) ncs st) =
   place_all (text_positions st) (map (bounding_rect \<circ> snd) ncs)"
  by (induction ncs arbitrary: st) (auto simp: process_contour_simps)

lemma fold_draw_shape:
  "draw_ok lib \<Longrightarrow> has_shape w h img \<Longrightarrow> has_shape w h (fold (\<lambda>op img. cv_draw lib img op) ops img)"
  by (induction ops arbitrary: img) (simp_all add: draw_ok_def)

text \<open>
  C13: Whenever processing an image succeeds, the annotated canvas that is written has
  exactly the configured size (800 by 800 for the script), whatever the source's size
  and aspect ratio, provided OpenCV's drawing keeps the canvas size.
\<close>

lemma process_image_shape:
  assumes "draw_ok lib" "process_image lib cfg img = Inr st"
  shows "has_shape (cfg_width cfg) (cfg_height cfg) (canvas st)"
proof -
  from process_image_reach [OF assms(2)] obtain base
    where base: "normalize cfg (cv_resize lib) img = Inr base" and reach: "img_reach lib base st"
    by blast
  from reach have "canvas st = fold (\<lambda>op img. cv_draw lib img op) (drawn st) base"
    by (simp add: img_reach_inv [THEN img_inv_def [THEN iffD1]])
  with assms(1) normalize_shape [OF base] show ?thesis
    by (simp add: fold_draw_shape)
qed


lemma process_image_result:
  "normalize cfg (cv_resize lib) img = Inr padded \<Longrightarrow>
   process_image lib cfg img =
     Inr (fold (\<lambda>(name, c) st. process_contour lib name st c)
            (image_regions lib (cfg_min_area cfg) (cvt_color (cv_hsv lib) padded) (cfg_bands cfg))
            (init_state padded))"
  by (simp add: process_image_def fold_process_band)

lemma fold_process_contour_count:
  "contour_count (fold (\<lambda>(name, c) st. process_contour lib name st c) ncs st) = contour_count st + length ncs"
  by (induction ncs arbitrary: st) (auto simp: process_contour_simps)

lemma fold_process_contour_texts:
  "label_texts (drawn (fold (\<lambda>(name, c) st. process_contour lib name st c) ncs st)) =
   label_texts (drawn st) @ map fst ncs"
  by (induction ncs arbitrary: st)
     (auto simp: process_contour_simps label_texts_def box_op_def label_bg_op_def label_text_op_def
           split: prod.splits)

lemma fold_process_contour_boxes:
  "filter is_box (drawn (fold (\<lambda>(name, c) st. process_contour lib name st c) ncs st)) =
   filter is_box (drawn st) @ map (box_op \<circ> bounding_rect \<circ> snd) ncs"
  by (induction ncs arbitrary: st)
     (auto simp: process_contour_simps box_op_def label_bg_op_def label_text_op_def split: prod.splits)

lemma mset_image_regions_perm:
  "mset bs = mset bs' \<Longrightarrow> mset (image_regions lib t hsv bs) = mset (image_regions lib t hsv bs')"
  unfolding image_regions_def by (rule mset_concat_map_perm)

lemma process_image_Inr_normalize:
  "process_image lib cfg img = Inr st \<Longrightarrow> \<exists>padded. normalize cfg (cv_resize lib) img = Inr padded"
  by (auto simp: process_image_def split: sum.splits)

text \<open>
  C14: The per-image state keeps its invariant through every contour of every band:
  \<^verbatim>\<open>contour_count\<close> equals the number of placed labels, three drawing calls were
  made per counted region, and the canvas is the normalised image with exactly those calls
  applied in order.
\<close>

lemma process_image_invariant:
  "process_image lib cfg img = Inr st \<Longrightarrow>
   \<exists>base. normalize cfg (cv_resize lib) img = Inr base \<and> img_inv lib base st"
  by (blast dest: process_image_reach img_reach_inv)

text \<open>
  C15: The labels placed on an image are the label placer's run over the bounding boxes
  of the surviving regions, band by band in table order and by descending area within a
  band: drawing never influences placement.
\<close>

lemma process_image_positions:
  assumes "normalize cfg (cv_resize lib) img = Inr padded"
    and "process_image lib cfg img = Inr st"
  shows "text_positions st =
    place_all [] (map (bounding_rect \<circ> snd)
      (image_regions lib (cfg_min_area cfg) (cvt_color (cv_hsv lib) padded) (cfg_bands cfg)))"
proof -
  from assms have "st = fold (\<lambda>(name, c) st. process_contour lib name st c)
      (image_regions lib (cfg_min_area cfg) (cvt_color (cv_hsv lib) padded) (cfg_bands cfg))
      (init_state padded)"
    by (simp add: process_image_result)
  then show ?thesis by (simp add: fold_process_contour_positions init_state_def)
qed

text \<open>
  C16: The detection counter of an image is the number of surviving regions over all
  bands.
\<close>

lemma process_image_count:
  assumes "normalize cfg (cv_resize lib) img = Inr padded"
    and "process_image lib cfg img = Inr st"
  shows "contour_count st =
    length (image_regions lib (cfg_min_area cfg) (cvt_color (cv_hsv lib) padded) (cfg_bands cfg))"
proof -
  from assms have "st = fold (\<lambda>(name, c) st. process_contour lib name st c)
      (image_regions lib (cfg_min_area cfg) (cvt_color (cv_hsv lib) padded) (cfg_bands cfg))
      (init_state padded)"
    by (simp add: process_image_result)
  then show ?thesis by (simp add: fold_process_contour_count init_state_def)
qed


text \<open>
  C38: Every surviving region gets exactly one label, with its band's name: the texts
  drawn on an image are the band names of the surviving regions, in band-table order and,
  within a band, in descending area.
\<close>

lemma process_image_label_texts:
  assumes "normalize cfg (cv_resize lib) img = Inr padded" "process_image lib cfg img = Inr st"
  shows "label_texts (drawn st) =
    map fst (image_regions lib (cfg_min_area cfg) (cvt_color (cv_hsv lib) padded) (cfg_bands cfg))"
proof -
  from assms have "st = fold (\<lambda>(name, c) st. process_contour lib name st c)
      (image_regions lib (cfg_min_area cfg) (cvt_color (cv_hsv lib) padded) (cfg_bands cfg))
      (init_state padded)"
    by (simp add: process_image_result)
  then have "label_texts (drawn st) = label_texts (drawn (init_state padded)) @
      map fst (image_regions lib (cfg_min_area cfg) (cvt_color (cv_hsv lib) padded) (cfg_bands cfg))"
    by (simp only: fold_process_contour_texts)
  then show ?thesis by (simp add: init_state_def label_texts_def)
qed

lemma demo_draw_ok: "draw_ok demo_lib"
  by (simp add: draw_ok_def demo_lib_def)

lemma demo_run:
  "process_image demo_lib demo_cfg demo_img = Inr (projr (process_image demo_lib demo_cfg demo_img))"
  by code_simp

lemma demo_dark_run:
  "process_image demo_lib demo_cfg demo_dark_img =
     Inr (projr (process_image demo_lib demo_cfg demo_dark_img))"
  by code_simp

lemma demo_normalize:
  "normalize demo_cfg (cv_resize demo_lib) demo_img =
     Inr (projr (normalize demo_cfg (cv_resize demo_lib) demo_img))"
  by code_simp

theorem process_image_shape_witness:
  "draw_ok demo_lib \<and>
   process_image demo_lib demo_cfg demo_img = Inr (projr (process_image demo_lib demo_cfg demo_img)) \<and>
   has_shape 4 4 (canvas (projr (process_image demo_lib demo_cfg demo_img)))"
  using demo_draw_ok demo_run process_image_shape [OF demo_draw_ok demo_run]
  by (simp add: demo_cfg_def)

theorem process_image_invariant_witness:
  "process_image demo_lib demo_cfg demo_img = Inr (projr (process_image demo_lib demo_cfg demo_img)) \<and>
   (\<exists>base. normalize demo_cfg (cv_resize demo_lib) demo_img = Inr base \<and>
      img_inv demo_lib base (projr (process_image demo_lib demo_cfg demo_img)))"
  using demo_run process_image_invariant [OF demo_run] by simp

theorem process_image_positions_witness:
  "normalize demo_cfg (cv_resize demo_lib) demo_img =
     Inr (projr (normalize demo_cfg (cv_resize demo_lib) demo_img)) \<and>
   process_image demo_lib demo_cfg demo_img = Inr (projr (process_image demo_lib demo_cfg demo_img)) \<and>
   text_positions (projr (process_image demo_lib demo_cfg demo_img)) =
     place_all [] (map (bounding_rect \<circ> snd)
       (image_regions demo_lib (cfg_min_area demo_cfg)
          (cvt_color (cv_hsv demo_lib) (projr (normalize demo_cfg (cv_resize demo_lib) demo_img)))
          (cfg_bands demo_cfg)))"
  using demo_normalize demo_run process_image_positions [OF demo_normalize demo_run] by simp

theorem process_image_count_witness:
  "normalize demo_cfg (cv_resize demo_lib) demo_img =
     Inr (projr (normalize demo_cfg (cv_resize demo_lib) demo_img)) \<and>
   process_image demo_lib demo_cfg demo_img = Inr (projr (process_image demo_lib demo_cfg demo_img)) \<and>
   contour_count (projr (process_image demo_lib demo_cfg demo_img)) =
     length (image_regions demo_lib (cfg_min_area demo_cfg)
          (cvt_color (cv_hsv demo_lib) (projr (normalize demo_cfg (cv_resize demo_lib) demo_img)))
          (cfg_bands demo_cfg))"
  using demo_normalize demo_run process_image_count [OF demo_normalize demo_run] by simp



theorem process_image_label_texts_witness:
  "normalize demo_cfg (cv_resize demo_lib) demo_img =
     Inr (projr (normalize demo_cfg (cv_resize demo_lib) demo_img)) \<and>
   process_image demo_lib demo_cfg demo_img = Inr (projr (process_image demo_lib demo_cfg demo_img)) \<and>
   label_texts (drawn (projr (process_image demo_lib demo_cfg demo_img))) =
     map fst (image_regions demo_lib (cfg_min_area demo_cfg)
          (cvt_color (cv_hsv demo_lib) (projr (normalize demo_cfg (cv_resize demo_lib) demo_img)))
          (cfg_bands demo_cfg)) \<and>
   label_texts (drawn (projr (process_image demo_lib demo_cfg demo_img))) = [''Red'']"
proof -
  have t: "label_texts (drawn (projr (process_image demo_lib demo_cfg demo_img))) = [''Red'']"
    by code_simp
  show ?thesis using demo_normalize demo_run process_image_label_texts [OF demo_normalize demo_run] t
    by simp
qed

end
