(* ===== verification/Batch.thy ===== *)
theory Batch
  imports Pipeline "HOL-Library.Sublist"
begin

text \<open>
  The batch around the per-image pipeline (\<^verbatim>\<open>src/y.py\<close> lines 28--36 and
  103--108): the extension filter on the directory listing, the loop that skips a file
  \<^verbatim>\<open>cv2.imread\<close> cannot decode, writes the annotated canvas under the same name and
  prints one line per file, and the final line. An exception raised while processing an
  image is not caught: it ends the whole script, and the result then carries the error
  with the files written and lines printed before it. \<^verbatim>\<open>os.listdir\<close> and
  \<^verbatim>\<open>os.makedirs\<close> are I/O outside the model: the listing is an input. The lemmas
  cover the printed lines, the files written and their names (through \<open>basename\<close>),
  and the invariant \<open>batch_inv\<close> that holds however a run ends.
\<close>

datatype log_line = NotRead string | Saved string | AllDone

record batch_state =
  written :: "(string \<times> image) list"
  printed :: "log_line list"

text \<open>\<^verbatim>\<open>str.lower\<close> on ASCII letters; other characters are unchanged.\<close>

definition lower_char :: "char \<Rightarrow> char" where
  "lower_char c = (let n = (of_char c :: nat) in if 65 \<le> n \<and> n \<le> 90 then char_of (n + 32) else c)"

definition ends_with :: "string \<Rightarrow> string \<Rightarrow> bool" where
  "ends_with suf s \<longleftrightarrow> length suf \<le> length s \<and> drop (length s - length suf) s = suf"

definition is_image_file :: "string \<Rightarrow> bool" where
  "is_image_file f =
     (let l = map lower_char f in ends_with ''.png'' l \<or> ends_with ''.jpg'' l \<or> ends_with ''.jpeg'' l)"

definition image_files :: "string list \<Rightarrow> string list" where
  "image_files listing = filter is_image_file listing"

text \<open>\<^verbatim>\<open>os.path.join(a, b)\<close> in its POSIX form.\<close>

definition path_join :: "string \<Rightarrow> string \<Rightarrow> string" where
  "path_join a b =
     (if take 1 b = ''/'' then b else if a = [] \<or> last a = CHR ''/'' then a @ b else a @ ''/'' @ b)"

text \<open>Lines 103--106: write the canvas under the file's name and print the success line.\<close>

definition save_image :: "cv_lib \<Rightarrow> config \<Rightarrow> string \<Rightarrow> img_state \<Rightarrow> batch_state \<Rightarrow> batch_state" where
  "save_image lib cfg f ist st =
     (let out = path_join (cfg_output_folder cfg) f;
          ok = cv_imwrite lib out (canvas ist)
      in st\<lparr>written := written st @ (if ok then [(out, canvas ist)] else []),
             printed := printed st @ [Saved out]\<rparr>)"

text \<open>Lines 31--36 around the per-image pipeline.\<close>

fun run_batch ::
  "cv_lib \<Rightarrow> config \<Rightarrow> string list \<Rightarrow> batch_state \<Rightarrow> (py_error \<times> batch_state) + batch_state" where
  "run_batch lib cfg [] st = Inr st"
| "run_batch lib cfg (f # fs) st =
     (case cv_imread lib (path_join (cfg_image_folder cfg) f) of
        None \<Rightarrow> run_batch lib cfg fs (st\<lparr>printed := printed st @ [NotRead f]\<rparr>)
      | Some img \<Rightarrow>
          (case process_image lib cfg img of
             Inl e \<Rightarrow> Inl (e, st)
           | Inr ist \<Rightarrow> run_batch lib cfg fs (save_image lib cfg f ist st)))"

definition run_script ::
  "cv_lib \<Rightarrow> config \<Rightarrow> string list \<Rightarrow> (py_error \<times> batch_state) + batch_state" where
  "run_script lib cfg listing =
     (case run_batch lib cfg (image_files listing) \<lparr>written = [], printed = []\<rparr> of
        Inl err \<Rightarrow> Inl err
      | Inr st \<Rightarrow> Inr (st\<lparr>printed := printed st @ [AllDone]\<rparr>))"

text \<open>A listed file on which the loop raises nothing: it does not decode, or it processes.\<close>

definition image_ok :: "cv_lib \<Rightarrow> config \<Rightarrow> string \<Rightarrow> bool" where
  "image_ok lib cfg f =
     (case cv_imread lib (path_join (cfg_image_folder cfg) f) of
        None \<Rightarrow> True
      | Some img \<Rightarrow> (case process_image lib cfg img of Inl _ \<Rightarrow> False | Inr _ \<Rightarrow> True))"

text \<open>
  \<^verbatim>\<open>os.path.basename\<close>: the part after the last slash. The script does not call
  it; it states that an output keeps its input's file name.
\<close>

definition basename :: "string \<Rightarrow> string" where
  "basename p = rev (takeWhile (\<lambda>c. c \<noteq> CHR ''/'') (rev p))"

text \<open>
  The paths that the success lines of a run print, the invariant that every written file
  was announced by one of them, and the state a run ends in, normally or by an exception.
\<close>

definition saved_paths :: "log_line list \<Rightarrow> string list" where
  "saved_paths ls = concat (map (\<lambda>l. case l of Saved p \<Rightarrow> [p] | NotRead _ \<Rightarrow> [] | AllDone \<Rightarrow> []) ls)"

definition batch_inv :: "batch_state \<Rightarrow> bool" where
  "batch_inv st \<longleftrightarrow> subseq (map fst (written st)) (saved_paths (printed st))"

definition final_state :: "(py_error \<times> batch_state) + batch_state \<Rightarrow> batch_state" where
  "final_state r = (case r of Inl (_, st) \<Rightarrow> st | Inr st \<Rightarrow> st)"

section \<open>Lemmas\<close>

text \<open>
  The extension test of line 28 is the suffix relation: \<open>ends_with\<close> holds exactly
  when the lower-cased name ends with the extension.
\<close>

lemma ends_with_suffix: "ends_with suf s \<longleftrightarrow> suffix suf s"
proof
  assume "ends_with suf s"
  then have "s = take (length s - length suf) s @ suf"
    by (metis append_take_drop_id ends_with_def)
  then show "suffix suf s" by (metis suffix_def)
next
  assume "suffix suf s"
  then obtain p where "s = p @ suf" by (auto simp: suffix_def)
  then show "ends_with suf s" by (simp add: ends_with_def)
qed

text \<open>
  One file of the batch, when processing it raises nothing: the loop goes on with the
  next file, one line printed and at most one file written.
\<close>

lemma run_batch_step:
  assumes "image_ok lib cfg f"
  shows "\<exists>st1. run_batch lib cfg (f # fs) st = run_batch lib cfg fs st1 \<and>
    printed st1 = printed st @ [case cv_imread lib (path_join (cfg_image_folder cfg) f) of
                                  None \<Rightarrow> NotRead f
                                | Some _ \<Rightarrow> Saved (path_join (cfg_output_folder cfg) f)] \<and>
    ((\<forall>p img. cv_imwrite lib p img) \<longrightarrow>
       map fst (written st1) = map fst (written st) @
         (if cv_imread lib (path_join (cfg_image_folder cfg) f) = None then []
          else [path_join (cfg_output_folder cfg) f]))"
proof (cases "cv_imread lib (path_join (cfg_image_folder cfg) f)")
  case None
  then show ?thesis
    by (intro exI [of _ "st\<lparr>printed := printed st @ [NotRead f]\<rparr>"]) simp
next
  case (Some img)
  with assms obtain ist where "process_image lib cfg img = Inr ist"
    by (auto simp: image_ok_def split: sum.splits)
  with Some show ?thesis
    by (intro exI [of _ "save_image lib cfg f ist st"]) (simp add: save_image_def Let_def)
qed

lemma run_batch_printed:
  assumes "list_all (image_ok lib cfg) fs"
  shows "\<exists>st'. run_batch lib cfg fs st = Inr st' \<and>
    printed st' = printed st @ map (\<lambda>f. case cv_imread lib (path_join (cfg_image_folder cfg) f) of
                               None \<Rightarrow> NotRead f
                             | Some _ \<Rightarrow> Saved (path_join (cfg_output_folder cfg) f)) fs"
  using assms
proof (induction fs arbitrary: st)
  case Nil
  then show ?case by simp
next
  case (Cons f fs)
  from Cons.prems obtain st1 where step: "run_batch lib cfg (f # fs) st = run_batch lib cfg fs st1"
    and p1: "printed st1 = printed st @ [case cv_imread lib (path_join (cfg_image_folder cfg) f) of
                                  None \<Rightarrow> NotRead f
                                | Some _ \<Rightarrow> Saved (path_join (cfg_output_folder cfg) f)]"
    using run_batch_step [of lib cfg f fs st] by auto
  from Cons.prems Cons.IH [of st1] step p1 show ?case by simp
qed

lemma takeWhile_no_slash:
  "CHR ''/'' \<notin> set f \<Longrightarrow> takeWhile (\<lambda>c. c \<noteq> CHR ''/'') (rev f) = rev f"
  by (auto simp: takeWhile_eq_all_conv)

lemma basename_no_slash: "CHR ''/'' \<notin> set f \<Longrightarrow> basename f = f"
  by (simp add: basename_def takeWhile_no_slash)

lemma basename_after_slash: "CHR ''/'' \<notin> set f \<Longrightarrow> basename (d @ CHR ''/'' # f) = f"
proof -
  assume f: "CHR ''/'' \<notin> set f"
  have "takeWhile (\<lambda>c. c \<noteq> CHR ''/'') (rev f @ CHR ''/'' # rev d) =
        rev f @ takeWhile (\<lambda>c. c \<noteq> CHR ''/'') (CHR ''/'' # rev d)"
    by (rule takeWhile_append2) (use f in auto)
  then have "takeWhile (\<lambda>c. c \<noteq> CHR ''/'') (rev f @ CHR ''/'' # rev d) = rev f" by simp
  then show ?thesis by (simp add: basename_def)
qed

lemma basename_path_join: "CHR ''/'' \<notin> set f \<Longrightarrow> basename (path_join d f) = f"
proof -
  assume f: "CHR ''/'' \<notin> set f"
  then have t: "take 1 f \<noteq> ''/''" by (cases f) auto
  consider "d = []" | "d \<noteq> []" "last d = CHR ''/''" | "d \<noteq> []" "last d \<noteq> CHR ''/''" by blast
  then show ?thesis
  proof cases
    case 1
    with t f show ?thesis by (simp add: path_join_def basename_no_slash)
  next
    case 2
    then obtain d' where d': "d = d' @ [CHR ''/'']" by (metis append_butlast_last_id)
    have "path_join d f = d' @ CHR ''/'' # f" using t unfolding d' by (simp add: path_join_def)
    with basename_after_slash [OF f] show ?thesis by simp
  next
    case 3
    with t have "path_join d f = d @ CHR ''/'' # f" by (simp add: path_join_def)
    with basename_after_slash [OF f] show ?thesis by simp
  qed
qed

lemma run_batch_written_map:
  assumes "list_all (image_ok lib cfg) fs"
    and "\<forall>p img. cv_imwrite lib p img"
  shows "\<exists>st'. run_batch lib cfg fs st = Inr st' \<and>
    map fst (written st') = map fst (written st) @
      map (path_join (cfg_output_folder cfg))
        (filter (\<lambda>f. cv_imread lib (path_join (cfg_image_folder cfg) f) \<noteq> None) fs)"
  using assms
proof (induction fs arbitrary: st)
  case Nil
  then show ?case by simp
next
  case (Cons f fs)
  from Cons.prems obtain st1 where step: "run_batch lib cfg (f # fs) st = run_batch lib cfg fs st1"
    and w1: "map fst (written st1) = map fst (written st) @
         (if cv_imread lib (path_join (cfg_image_folder cfg) f) = None then []
          else [path_join (cfg_output_folder cfg) f])"
    using run_batch_step [of lib cfg f fs st] by auto
  from Cons.prems Cons.IH [of st1] step w1 show ?case
    by (cases "cv_imread lib (path_join (cfg_image_folder cfg) f)") auto
qed

lemma run_script_written:
  assumes "list_all (image_ok lib cfg) (image_files listing)"
    and "\<forall>p img. cv_imwrite lib p img"
  shows "\<exists>st. run_script lib cfg listing = Inr st \<and>
    map fst (written st) = map (path_join (cfg_output_folder cfg))
      (filter (\<lambda>f. cv_imread lib (path_join (cfg_image_folder cfg) f) \<noteq> None) (image_files listing))"
  using run_batch_written_map [OF assms, of "\<lparr>written = [], printed = []\<rparr>"]
  by (auto simp: run_script_def)

lemma map_basename_path_join:
  "list_all (\<lambda>f. CHR ''/'' \<notin> set f) fs \<Longrightarrow> map basename (map (path_join d) fs) = fs"
  by (induction fs) (simp_all add: basename_path_join)

lemma distinct_path_join:
  "list_all (\<lambda>f. CHR ''/'' \<notin> set f) fs \<Longrightarrow> distinct fs \<Longrightarrow> distinct (map (path_join d) fs)"
  by (simp add: distinct_map list_all_iff) (metis basename_path_join inj_on_inverseI)

lemma saved_paths_append [simp]: "saved_paths (xs @ ys) = saved_paths xs @ saved_paths ys"
  by (simp add: saved_paths_def)

lemma saved_paths_single [simp]:
  "saved_paths [Saved p] = [p]" "saved_paths [NotRead f] = []" "saved_paths [AllDone] = []"
  by (simp_all add: saved_paths_def)

lemma save_image_inv: "batch_inv st \<Longrightarrow> batch_inv (save_image lib cfg f ist st)"
  by (auto simp: batch_inv_def save_image_def Let_def intro: list_emb_append_mono)

lemma run_batch_inv: "batch_inv st \<Longrightarrow> batch_inv (final_state (run_batch lib cfg fs st))"
proof (induction fs arbitrary: st)
  case Nil
  then show ?case by (simp add: final_state_def)
next
  case (Cons f fs)
  show ?case
  proof (cases "cv_imread lib (path_join (cfg_image_folder cfg) f)")
    case None
    have "batch_inv (st\<lparr>printed := printed st @ [NotRead f]\<rparr>)"
      using Cons.prems by (simp add: batch_inv_def)
    with None Cons.IH show ?thesis by simp
  next
    case (Some img)
    then show ?thesis
      using Cons.prems Cons.IH save_image_inv
      by (cases "process_image lib cfg img") (simp_all add: final_state_def)
  qed
qed

text \<open>
  C20: When no image raises and every write succeeds, the files written are exactly the
  decodable ones, each under its own name in the output folder, in listing order.
\<close>

lemma run_batch_written:
  assumes "list_all (image_ok lib cfg) fs"
    and "\<forall>p img. cv_imwrite lib p img"
  shows "\<exists>st'. run_batch lib cfg fs st = Inr st' \<and>
    map fst (written st') = map fst (written st) @
      map (path_join (cfg_output_folder cfg))
        (filter (\<lambda>f. cv_imread lib (path_join (cfg_image_folder cfg) f) \<noteq> None) fs)"
  using run_batch_written_map [OF assms] .

text \<open>
  C21: An image more than 800 times wider than high (for the script's canvas) scales to
  height 0, \<^verbatim>\<open>cv2.resize\<close> raises, and the exception ends the whole batch:
  no later file is processed, contrary to the spec's rule that only the failing file is
  skipped.
\<close>

lemma run_batch_wide_image_aborts:
  assumes "cv_imread lib (path_join (cfg_image_folder cfg) f) = Some img"
    and "0 < length img" "cfg_width cfg * length img < image_width img"
  shows "run_batch lib cfg (f # fs) st = Inl (ResizeError, st)"
  using assms by (simp add: process_image_def normalize_resize_error)

text \<open>
  C22: The result of \<^verbatim>\<open>cv2.imwrite\<close> is ignored: when the write fails, nothing is
  written and the success line is printed all the same.
\<close>

lemma run_batch_write_failure_logged:
  assumes "cv_imread lib (path_join (cfg_image_folder cfg) f) = Some img"
    and "process_image lib cfg img = Inr ist"
    and "\<not> cv_imwrite lib (path_join (cfg_output_folder cfg) f) (canvas ist)"
  shows "run_batch lib cfg [f] st =
         Inr (st\<lparr>printed := printed st @ [Saved (path_join (cfg_output_folder cfg) f)]\<rparr>)"
  using assms by (simp add: save_image_def)

text \<open>
  C37: No output file is written twice: when no image raises, every write succeeds, and
  the listing (as \<^verbatim>\<open>os.listdir\<close> returns it) has distinct names without a slash, the
  output paths are pairwise distinct, so no annotated image overwrites another.
\<close>

lemma run_script_distinct_outputs:
  assumes "list_all (image_ok lib cfg) (image_files listing)"
    and "\<forall>p img. cv_imwrite lib p img"
    and "list_all (\<lambda>f. CHR ''/'' \<notin> set f) listing" "distinct listing"
  shows "\<exists>st. run_script lib cfg listing = Inr st \<and> distinct (map fst (written st))"
proof -
  from run_script_written [OF assms(1,2)] obtain st where r: "run_script lib cfg listing = Inr st"
    and w: "map fst (written st) = map (path_join (cfg_output_folder cfg))
      (filter (\<lambda>f. cv_imread lib (path_join (cfg_image_folder cfg) f) \<noteq> None) (image_files listing))"
    by blast
  have "list_all (\<lambda>f. CHR ''/'' \<notin> set f)
      (filter (\<lambda>f. cv_imread lib (path_join (cfg_image_folder cfg) f) \<noteq> None) (image_files listing))"
    "distinct (filter (\<lambda>f. cv_imread lib (path_join (cfg_image_folder cfg) f) \<noteq> None) (image_files listing))"
    using assms(3,4) by (simp_all add: image_files_def list_all_iff)
  then have "distinct (map (path_join (cfg_output_folder cfg))
      (filter (\<lambda>f. cv_imread lib (path_join (cfg_image_folder cfg) f) \<noteq> None) (image_files listing)))"
    by (rule distinct_path_join)
  with r w show ?thesis by auto
qed
text \<open>
  C40: Whatever happens during a run (files that do not decode, failed writes, an
  exception that ends the script), every file written has been announced by its own
  success line, in the order of writing: the written paths are a subsequence of the
  paths the success lines print.
\<close>

theorem run_script_written_announced:
  "batch_inv (final_state (run_script lib cfg listing))"
proof -
  have "batch_inv (final_state (run_batch lib cfg (image_files listing) \<lparr>written = [], printed = []\<rparr>))"
    by (rule run_batch_inv) (simp add: batch_inv_def saved_paths_def)
  then show ?thesis
    by (auto simp: run_script_def final_state_def batch_inv_def split: sum.splits)
qed


lemma demo_imread:
  "cv_imread demo_lib (path_join (cfg_image_folder demo_cfg) ''a.png'') = Some demo_img"
  "cv_imread demo_lib (path_join (cfg_image_folder demo_cfg) ''b.png'') = None"
  "cv_imread demo_lib (path_join (cfg_image_folder demo_cfg) ''wide.png'') = Some [replicate 5 black]"
  by (simp_all add: demo_lib_def demo_cfg_def path_join_def)

lemma demo_batch_ok:
  "list_all (image_ok demo_lib demo_cfg) [''a.png'', ''b.png'']"
  using demo_imread by (simp add: image_ok_def) (subst demo_run, simp)

theorem run_batch_written_witness:
  "list_all (image_ok demo_lib demo_cfg) [''a.png'', ''b.png''] \<and>
   (\<forall>p img. cv_imwrite demo_lib p img) \<and>
   (\<exists>st'. run_batch demo_lib demo_cfg [''a.png'', ''b.png''] \<lparr>written = [], printed = []\<rparr> = Inr st' \<and>
     map fst (written st') = [''out/a.png''])"
proof -
  have w: "\<forall>p img. cv_imwrite demo_lib p img" by (simp add: demo_lib_def)
  show ?thesis
    using demo_batch_ok w run_batch_written [OF demo_batch_ok w, of "\<lparr>written = [], printed = []\<rparr>"]
    by (simp add: demo_imread) (simp add: demo_cfg_def path_join_def)
qed

theorem run_batch_wide_image_aborts_witness:
  "cv_imread demo_lib (path_join (cfg_image_folder demo_cfg) ''wide.png'') = Some [replicate 5 black] \<and>
   0 < length [replicate 5 black] \<and> cfg_width demo_cfg * length [replicate 5 black] < image_width [replicate 5 black] \<and>
   run_batch demo_lib demo_cfg [''wide.png'', ''a.png''] \<lparr>written = [], printed = []\<rparr> =
     Inl (ResizeError, \<lparr>written = [], printed = []\<rparr>)"
proof -
  have h: "0 < length [replicate 5 black]" "cfg_width demo_cfg * length [replicate 5 black] < image_width [replicate 5 black]"
    by (simp_all add: demo_cfg_def image_width_def)
  show ?thesis
    using demo_imread(3) h run_batch_wide_image_aborts [OF demo_imread(3) h] by simp
qed

theorem run_batch_write_failure_logged_witness:
  "cv_imread (demo_lib\<lparr>cv_imwrite := \<lambda>p img. False\<rparr>) (path_join (cfg_image_folder demo_cfg) ''a.png'') = Some demo_img \<and>
   process_image (demo_lib\<lparr>cv_imwrite := \<lambda>p img. False\<rparr>) demo_cfg demo_img =
     Inr (projr (process_image demo_lib demo_cfg demo_img)) \<and>
   \<not> cv_imwrite (demo_lib\<lparr>cv_imwrite := \<lambda>p img. False\<rparr>) (path_join (cfg_output_folder demo_cfg) ''a.png'')
        (canvas (projr (process_image demo_lib demo_cfg demo_img))) \<and>
   run_batch (demo_lib\<lparr>cv_imwrite := \<lambda>p img. False\<rparr>) demo_cfg [''a.png''] \<lparr>written = [], printed = []\<rparr> =
     Inr \<lparr>written = [], printed = [Saved ''out/a.png'']\<rparr>"
proof -
  let ?lib = "demo_lib\<lparr>cv_imwrite := \<lambda>p img. False\<rparr>"
  have r: "cv_imread ?lib (path_join (cfg_image_folder demo_cfg) ''a.png'') = Some demo_img"
    using demo_imread(1) by simp
  have p: "process_image ?lib demo_cfg demo_img = Inr (projr (process_image demo_lib demo_cfg demo_img))"
    by code_simp
  have w: "\<not> cv_imwrite ?lib (path_join (cfg_output_folder demo_cfg) ''a.png'')
        (canvas (projr (process_image demo_lib demo_cfg demo_img)))" by simp
  show ?thesis
    using r p w run_batch_write_failure_logged [OF r p w, of "\<lparr>written = [], printed = []\<rparr>"]
    by (simp add: demo_cfg_def path_join_def)
qed

text \<open>
  C19: When no listed image raises, the script runs to its end and prints exactly: for
  each image file of the listing (by extension, in listing order) a failure line if it does
  not decode and its output path otherwise, then the final line. A file that does not
  decode never stops the batch.
\<close>

lemma run_script_output:
  assumes "list_all (image_ok lib cfg) (image_files listing)"
  shows "\<exists>st. run_script lib cfg listing = Inr st \<and>
    printed st = map (\<lambda>f. case cv_imread lib (path_join (cfg_image_folder cfg) f) of
                         None \<Rightarrow> NotRead f
                       | Some _ \<Rightarrow> Saved (path_join (cfg_output_folder cfg) f)) (image_files listing)
                 @ [AllDone]"
proof -
  from run_batch_printed [OF assms, of "\<lparr>written = [], printed = []\<rparr>"] obtain st
    where "run_batch lib cfg (image_files listing) \<lparr>written = [], printed = []\<rparr> = Inr st"
      and "printed st = map (\<lambda>f. case cv_imread lib (path_join (cfg_image_folder cfg) f) of
                         None \<Rightarrow> NotRead f
                       | Some _ \<Rightarrow> Saved (path_join (cfg_output_folder cfg) f)) (image_files listing)"
    by auto
  then show ?thesis by (simp add: run_script_def)
qed

theorem run_script_output_witness:
  "list_all (image_ok demo_lib demo_cfg) (image_files [''a.png'', ''notes.txt'', ''b.png'']) \<and>
   (\<exists>st. run_script demo_lib demo_cfg [''a.png'', ''notes.txt'', ''b.png''] = Inr st \<and>
     printed st = [Saved ''out/a.png'', NotRead ''b.png'', AllDone])"
proof -
  have f: "image_files [''a.png'', ''notes.txt'', ''b.png''] = [''a.png'', ''b.png'']" by code_simp
  have h: "list_all (image_ok demo_lib demo_cfg) (image_files [''a.png'', ''notes.txt'', ''b.png''])"
    using demo_batch_ok by (simp only: f)
  show ?thesis using h run_script_output [OF h]
    by (simp add: f demo_imread) (simp add: demo_cfg_def path_join_def)
qed


theorem run_script_distinct_outputs_witness:
  "list_all (image_ok demo_lib demo_cfg) (image_files [''a.png'', ''notes.txt'', ''b.png'']) \<and>
   (\<forall>p img. cv_imwrite demo_lib p img) \<and>
   list_all (\<lambda>f. CHR ''/'' \<notin> set f) [''a.png'', ''notes.txt'', ''b.png''] \<and>
   distinct [''a.png'', ''notes.txt'', ''b.png''] \<and>
   (\<exists>st. run_script demo_lib demo_cfg [''a.png'', ''notes.txt'', ''b.png''] = Inr st \<and>
     distinct (map fst (written st)))"
proof -
  have f: "image_files [''a.png'', ''notes.txt'', ''b.png''] = [''a.png'', ''b.png'']" by code_simp
  have h: "list_all (image_ok demo_lib demo_cfg) (image_files [''a.png'', ''notes.txt'', ''b.png''])"
    using demo_batch_ok by (simp only: f)
  have w: "\<forall>p img. cv_imwrite demo_lib p img" by (simp add: demo_lib_def)
  have n: "list_all (\<lambda>f. CHR ''/'' \<notin> set f) [''a.png'', ''notes.txt'', ''b.png'']" by simp
  have d: "distinct [''a.png'', ''notes.txt'', ''b.png'']" by simp
  show ?thesis using h w n d run_script_distinct_outputs [OF h w n d] by blast
qed

end
