(* ===== verification/Script.thy ===== *)
theory Script
  imports Batch
begin

text \<open>
  The script's main loop (\<^verbatim>\<open>src/y.py\<close> lines 31--108) as a small-step transition
  system, one step per iteration: a configuration is the loop running over the files
  still to do, the loop ended by an exception, or the script finished after its last
  line. \<open>run_script\<close> in \<open>Batch\<close> is the big-step reading of the same code; here the
  loop terminates on every input, is deterministic, and its final configuration is the
  one \<open>run_script\<close> computes.
\<close>

datatype script_cfg =
    Running "string list" batch_state
  | Raised py_error batch_state
  | Finished batch_state

inductive script_step :: "cv_lib \<Rightarrow> config \<Rightarrow> script_cfg \<Rightarrow> script_cfg \<Rightarrow> bool"
  for lib :: cv_lib and cfg :: config where
  not_read: "cv_imread lib (path_join (cfg_image_folder cfg) f) = None \<Longrightarrow>
    script_step lib cfg (Running (f # fs) st) (Running fs (st\<lparr>printed := printed st @ [NotRead f]\<rparr>))"
| saved: "cv_imread lib (path_join (cfg_image_folder cfg) f) = Some img \<Longrightarrow>
    process_image lib cfg img = Inr ist \<Longrightarrow>
    script_step lib cfg (Running (f # fs) st) (Running fs (save_image lib cfg f ist st))"
| raised: "cv_imread lib (path_join (cfg_image_folder cfg) f) = Some img \<Longrightarrow>
    process_image lib cfg img = Inl e \<Longrightarrow>
    script_step lib cfg (Running (f # fs) st) (Raised e st)"
| all_done: "script_step lib cfg (Running [] st) (Finished (st\<lparr>printed := printed st @ [AllDone]\<rparr>))"

definition script_start :: "string list \<Rightarrow> script_cfg" where
  "script_start listing = Running (image_files listing) \<lparr>written = [], printed = []\<rparr>"

fun final_cfg :: "script_cfg \<Rightarrow> bool" where
  "final_cfg (Running _ _) = False"
| "final_cfg (Raised _ _) = True"
| "final_cfg (Finished _) = True"

fun outcome :: "(py_error \<times> batch_state) + batch_state \<Rightarrow> script_cfg" where
  "outcome (Inl (e, st)) = Raised e st"
| "outcome (Inr st) = Finished st"

fun cfg_rank :: "script_cfg \<Rightarrow> nat" where
  "cfg_rank (Running fs _) = Suc (length fs)"
| "cfg_rank (Raised _ _) = 0"
| "cfg_rank (Finished _) = 0"

inductive_cases script_step_RunningE: "script_step lib cfg (Running fs st) c"
inductive_cases script_step_RaisedE [elim!]: "script_step lib cfg (Raised e st) c"
inductive_cases script_step_FinishedE [elim!]: "script_step lib cfg (Finished st) c"

lemma script_step_rank: "script_step lib cfg c c' \<Longrightarrow> cfg_rank c' < cfg_rank c"
  by (induction rule: script_step.induct) simp_all

lemma script_step_deterministic:
  "script_step lib cfg c c1 \<Longrightarrow> script_step lib cfg c c2 \<Longrightarrow> c2 = c1"
  by (induction rule: script_step.induct) (auto elim: script_step_RunningE)

lemma final_cfg_iff: "final_cfg c \<longleftrightarrow> (\<nexists>c'. script_step lib cfg c c')"
proof (cases c)
  case (Running fs st)
  show ?thesis
  proof (cases fs)
    case Nil
    with Running show ?thesis by (auto intro: script_step.all_done)
  next
    case (Cons f fs')
    show ?thesis
    proof (cases "cv_imread lib (path_join (cfg_image_folder cfg) f)")
      case None
      with Running Cons show ?thesis by (auto intro: script_step.not_read)
    next
      case (Some img)
      with Running Cons show ?thesis
        by (cases "process_image lib cfg img") (auto intro: script_step.saved script_step.raised)
    qed
  qed
qed auto

lemma final_cfg_outcome [simp]: "final_cfg (outcome r)"
  by (cases r rule: outcome.cases) simp_all

lemma run_batch_steps:
  "(script_step lib cfg)\<^sup>*\<^sup>* (Running fs st)
     (case run_batch lib cfg fs st of Inl (e, st') \<Rightarrow> Raised e st' | Inr st' \<Rightarrow> Running [] st')"
proof (induction fs arbitrary: st)
  case Nil
  then show ?case by simp
next
  case (Cons f fs)
  show ?case
  proof (cases "cv_imread lib (path_join (cfg_image_folder cfg) f)")
    case None
    with Cons.IH show ?thesis by (auto intro: converse_rtranclp_into_rtranclp script_step.not_read)
  next
    case (Some img)
    then show ?thesis
    proof (cases "process_image lib cfg img")
      case (Inl e)
      with Some show ?thesis by (auto intro: script_step.raised)
    next
      case (Inr ist)
      with Some Cons.IH show ?thesis
        by (auto intro: converse_rtranclp_into_rtranclp script_step.saved)
    qed
  qed
qed

lemma run_script_steps:
  "(script_step lib cfg)\<^sup>*\<^sup>* (script_start listing) (outcome (run_script lib cfg listing))"
proof (cases "run_batch lib cfg (image_files listing) \<lparr>written = [], printed = []\<rparr>")
  case (Inl r)
  then show ?thesis using run_batch_steps [of lib cfg "image_files listing" "\<lparr>written = [], printed = []\<rparr>"]
    by (cases r) (simp add: script_start_def run_script_def)
next
  case (Inr st)
  then have "(script_step lib cfg)\<^sup>*\<^sup>* (script_start listing) (Running [] st)"
    using run_batch_steps [of lib cfg "image_files listing" "\<lparr>written = [], printed = []\<rparr>"]
    by (simp add: script_start_def)
  with Inr show ?thesis
    by (auto simp: run_script_def intro: rtranclp.rtrancl_into_rtrancl script_step.all_done)
qed

lemma final_unique:
  assumes "(script_step lib cfg)\<^sup>*\<^sup>* c c1" "(script_step lib cfg)\<^sup>*\<^sup>* c c2"
    and "final_cfg c1" "final_cfg c2"
  shows "c1 = c2"
  using assms
proof (induction arbitrary: c2 rule: converse_rtranclp_induct)
  case base
  then show ?case by (auto simp: final_cfg_iff [of _ lib cfg] elim: converse_rtranclpE)
next
  case (step c c')
  from step.prems(1,3) step.hyps(1) obtain c'' where s: "script_step lib cfg c c''"
    and r: "(script_step lib cfg)\<^sup>*\<^sup>* c'' c2"
    by (cases rule: converse_rtranclpE) (auto simp: final_cfg_iff [of _ lib cfg])
  from step.hyps(1) s have "c'' = c'" by (rule script_step_deterministic)
  with r step.IH step.prems(2,3) show ?case by blast
qed



end
