(* ===== verification/Boxes.thy ===== *)
theory Boxes
  imports Pipeline
begin

text \<open>
  Where the boxes of lines 78--79 land on the canvas. What the script needs of
  \<^verbatim>\<open>cv2.findContours\<close> is stated as a contract, \<open>contours_ok\<close>: every contour it
  returns is non-empty and made of set pixels of the mask. Under it, every box outline
  starts inside the canvas; its far corner \<open>(x + w, y + h)\<close>, which
  \<^verbatim>\<open>cv2.rectangle\<close> draws inclusively, may lie one pixel past the region and so on the
  canvas border or just beyond it.
\<close>

definition contours_ok :: "cv_lib \<Rightarrow> bool" where
  "contours_ok lib \<longleftrightarrow>
     (\<forall>m c. c \<in> set (cv_find_contours lib m) \<longrightarrow> c \<noteq> [] \<and>
        (\<forall>p\<in>set c. 0 \<le> fst p \<and> 0 \<le> snd p \<and> nat (snd p) < length m \<and>
                    nat (fst p) < length (m ! nat (snd p)) \<and> m ! nat (snd p) ! nat (fst p) = 255))"

text \<open>
  A contour finder that meets the contract, for the concrete runs: the corners of the set
  pixels' bounding box when they are all set pixels (a solid block), else the set pixels
  themselves, row by row.
\<close>

definition set_pixels :: "mask \<Rightarrow> point list" where
  "set_pixels m = concat (map (\<lambda>r. map (\<lambda>c. (int c, int r))
                      (filter (\<lambda>c. m ! r ! c = 255) [0..<length (m ! r)])) [0..<length m])"

definition pixel_contours :: "mask \<Rightarrow> contour list" where
  "pixel_contours m = (case set_pixels m of [] \<Rightarrow> [] | p # ps \<Rightarrow>
     (let x0 = fold min (map fst ps) (fst p); x1 = fold max (map fst ps) (fst p);
          y0 = fold min (map snd ps) (snd p); y1 = fold max (map snd ps) (snd p);
          c = [(x0, y0), (x1, y0), (x1, y1), (x0, y1)]
      in if list_all (\<lambda>q. q \<in> set (p # ps)) c then [c] else [p # ps]))"

definition demo_pixel_lib :: cv_lib where
  "demo_pixel_lib = demo_lib\<lparr>cv_find_contours := pixel_contours\<rparr>"

definition box_inside :: "nat \<Rightarrow> nat \<Rightarrow> draw_op \<Rightarrow> bool" where
  "box_inside w h op = (case op of
     Rectangle (x0, y0) (x1, y1) _ _ \<Rightarrow> 0 \<le> x0 \<and> 0 \<le> y0 \<and> x1 \<le> int w \<and> y1 \<le> int h
   | PutText _ _ _ _ \<Rightarrow> True)"

lemma set_pixels_valid:
  "p \<in> set (set_pixels m) \<Longrightarrow> 0 \<le> fst p \<and> 0 \<le> snd p \<and> nat (snd p) < length m \<and>
     nat (fst p) < length (m ! nat (snd p)) \<and> m ! nat (snd p) ! nat (fst p) = 255"
  by (auto simp: set_pixels_def)

lemma pixel_contours_sub:
  assumes "c \<in> set (pixel_contours m)"
  shows "c \<noteq> [] \<and> set c \<subseteq> set (set_pixels m)"
proof (cases "set_pixels m")
  case Nil
  with assms show ?thesis by (simp add: pixel_contours_def)
next
  case (Cons p ps)
  with assms show ?thesis
    by (simp add: pixel_contours_def Let_def list_all_iff split: if_splits)
qed

lemma pixel_contours_ok: "contours_ok demo_pixel_lib"
  unfolding contours_ok_def demo_pixel_lib_def
  using pixel_contours_sub set_pixels_valid by fastforce

lemma bounding_rect_Min_Max:
  "c \<noteq> [] \<Longrightarrow> bounding_rect c =
     (Min (fst ` set c), Min (snd ` set c),
      Max (fst ` set c) - Min (fst ` set c) + 1, Max (snd ` set c) - Min (snd ` set c) + 1)"
  by (auto simp: bounding_rect_def Let_def neq_Nil_conv)

lemma bounding_rect_inside:
  assumes "c \<noteq> []" "\<forall>p\<in>set c. 0 \<le> fst p \<and> fst p < int w \<and> 0 \<le> snd p \<and> snd p < int h"
    and "bounding_rect c = (x, y, bw, bh)"
  shows "0 \<le> x \<and> 0 \<le> y \<and> x + bw \<le> int w \<and> y + bh \<le> int h"
proof -
  have f: "finite (fst ` set c)" "fst ` set c \<noteq> {}" "finite (snd ` set c)" "snd ` set c \<noteq> {}"
    using assms(1) by simp_all
  have m: "0 \<le> Min (fst ` set c)" "Max (fst ` set c) < int w"
    "0 \<le> Min (snd ` set c)" "Max (snd ` set c) < int h"
    using assms(2) f by simp_all
  from assms(1,3) have "x = Min (fst ` set c)" "y = Min (snd ` set c)"
    "bw = Max (fst ` set c) - Min (fst ` set c) + 1" "bh = Max (snd ` set c) - Min (snd ` set c) + 1"
    by (simp_all add: bounding_rect_Min_Max)
  with m show ?thesis by linarith
qed

lemma contour_in_canvas:
  assumes "contours_ok lib" "has_shape w h m" "c \<in> set (cv_find_contours lib m)"
  shows "c \<noteq> [] \<and> (\<forall>p\<in>set c. 0 \<le> fst p \<and> fst p < int w \<and> 0 \<le> snd p \<and> snd p < int h)"
proof -
  from assms(1,3) have c: "c \<noteq> []" and pts: "\<forall>p\<in>set c. 0 \<le> fst p \<and> 0 \<le> snd p \<and>
      nat (snd p) < length m \<and> nat (fst p) < length (m ! nat (snd p))"
    unfolding contours_ok_def by blast+
  have "\<forall>p\<in>set c. 0 \<le> fst p \<and> fst p < int w \<and> 0 \<le> snd p \<and> snd p < int h"
  proof
    fix p assume "p \<in> set c"
    with pts have p: "0 \<le> fst p" "0 \<le> snd p" "nat (snd p) < length m"
      "nat (fst p) < length (m ! nat (snd p))" by auto
    with assms(2) have "length (m ! nat (snd p)) = w" "length m = h"
      by (auto simp: has_shape_def list_all_length)
    with p show "0 \<le> fst p \<and> fst p < int w \<and> 0 \<le> snd p \<and> snd p < int h" by linarith
  qed
  with c show ?thesis by blast
qed

lemma image_regions_mem:
  "(n, c) \<in> set (image_regions lib t hsv bs) \<Longrightarrow> \<exists>b. c \<in> set (cv_find_contours lib (in_range hsv b))"
proof -
  assume "(n, c) \<in> set (image_regions lib t hsv bs)"
  then obtain b where "c \<in> set (select_regions t (cv_find_contours lib (in_range hsv b)))"
    by (auto simp: image_regions_def)
  then show ?thesis using set_select_regions_sub by blast
qed

text \<open>
  C24: Given the contract on \<^verbatim>\<open>cv2.findContours\<close>, every box outline drawn on an image
  starts inside the canvas, with its far corner at most at \<open>(width, height)\<close>: that
  corner is one pixel past the region's last column and row, so a region that touches the
  right or bottom edge gets an outline whose far side lies just off the canvas.
\<close>

theorem process_image_boxes_inside:
  assumes "contours_ok lib" "process_image lib cfg img = Inr st"
  shows "list_all (box_inside (cfg_width cfg) (cfg_height cfg)) (filter is_box (drawn st))"
proof -
  from assms(2) obtain padded where n: "normalize cfg (cv_resize lib) img = Inr padded"
    using process_image_Inr_normalize by blast
  let ?hsv = "cvt_color (cv_hsv lib) padded"
  let ?rs = "image_regions lib (cfg_min_area cfg) ?hsv (cfg_bands cfg)"
  from n assms(2) have st: "st = fold (\<lambda>(name, c) st. process_contour lib name st c) ?rs (init_state padded)"
    by (simp add: process_image_result)
  have boxes: "filter is_box (drawn st) = map (box_op \<circ> bounding_rect \<circ> snd) ?rs"
    unfolding st by (simp add: fold_process_contour_boxes init_state_def)
  have shape: "\<And>b. has_shape (cfg_width cfg) (cfg_height cfg) (in_range ?hsv b)"
    using normalize_shape [OF n] by (simp add: grid_simps)
  have "\<forall>nc\<in>set ?rs. box_inside (cfg_width cfg) (cfg_height cfg) (box_op (bounding_rect (snd nc)))"
  proof
    fix nc assume "nc \<in> set ?rs"
    then have "(fst nc, snd nc) \<in> set ?rs" by simp
    then obtain b where "snd nc \<in> set (cv_find_contours lib (in_range ?hsv b))"
      by (blast dest: image_regions_mem)
    from contour_in_canvas [OF assms(1) shape this]
    have c: "snd nc \<noteq> []" "\<forall>p\<in>set (snd nc). 0 \<le> fst p \<and> fst p < int (cfg_width cfg) \<and>
        0 \<le> snd p \<and> snd p < int (cfg_height cfg)" by blast+
    obtain x y bw bh where r: "bounding_rect (snd nc) = (x, y, bw, bh)" by (cases "bounding_rect (snd nc)")
    from bounding_rect_inside [OF c r]
    show "box_inside (cfg_width cfg) (cfg_height cfg) (box_op (bounding_rect (snd nc)))"
      by (simp add: r box_op_def box_inside_def)
  qed
  then show ?thesis by (simp add: boxes list_all_iff)
qed

lemma demo_pixel_run:
  "process_image demo_pixel_lib demo_cfg demo_img =
     Inr (projr (process_image demo_pixel_lib demo_cfg demo_img))"
  by code_simp

theorem process_image_boxes_inside_witness:
  "contours_ok demo_pixel_lib \<and>
   process_image demo_pixel_lib demo_cfg demo_img =
     Inr (projr (process_image demo_pixel_lib demo_cfg demo_img)) \<and>
   list_all (box_inside 4 4) (filter is_box (drawn (projr (process_image demo_pixel_lib demo_cfg demo_img)))) \<and>
   filter is_box (drawn (projr (process_image demo_pixel_lib demo_cfg demo_img))) =
     [Rectangle (0, 1) (4, 3) box_color 2]"
proof -
  have b: "filter is_box (drawn (projr (process_image demo_pixel_lib demo_cfg demo_img))) =
     [Rectangle (0, 1) (4, 3) box_color 2]" by code_simp
  show ?thesis
    using pixel_contours_ok demo_pixel_run process_image_boxes_inside [OF pixel_contours_ok demo_pixel_run] b
    by (simp add: demo_cfg_def)
qed

end
