(* ===== verification/Spec2Isabelle.thy ===== *)
theory Spec2Isabelle
  imports Script Boxes
begin

text \<open>
  \<^bold>\<open>A verification model of \<^verbatim>\<open>src/y.py\<close>\<close>, the script that letterboxes every
  image of a folder to 800 by 800, finds regions of eight named colour bands and draws a
  labelled box round each, writing the annotated copies to an output folder.

  \<^bold>\<open>The program and its parts.\<close> The script is one module. Its constants (lines 6--25)
  are the ordered colour table \<^verbatim>\<open>color_names\<close>, \<^verbatim>\<open>min_area\<close>, the folders and the
  canvas size. The batch loop (lines 28--36, 103--108) lists the folder, keeps
  \<^verbatim>\<open>.png/.jpg/.jpeg\<close> names, skips files \<^verbatim>\<open>cv2.imread\<close> cannot decode, and for each
  image runs the per-image pipeline, writes the canvas and prints a line. The per-image
  pipeline normalises the size (lines 39--51), converts to HSV once (54), and for each band
  in table order makes a mask (63), finds, sorts and filters the contours (66--75), and for
  each surviving contour draws the box (78--79), places the label against the labels
  already placed for this image (82--89), draws the label (92--98), counts it and records
  its position (100--101). All state is per image: canvas, counter, label positions.

  \<^bold>\<open>Theories, in dependency order.\<close>
  \<^item> \<open>Prelude\<close>: the types (pixels as triples of \<open>8 word\<close>, images and masks as lists
    of rows, points and rectangles as Python ints), the grid-shape predicate
    \<open>has_shape\<close>, the exceptions \<open>py_error\<close>, and the generic fact that a loop with
    \<^verbatim>\<open>break\<close> on an upward-closed condition over a sorted list is a filter.
  \<^item> \<open>Color_Table\<close>: \<open>color_names\<close>, \<open>min_area\<close>, the folders and sizes, and the
    record \<open>config\<close> that gathers them (\<open>script_config\<close> holds the script's values;
    every other theory takes the configuration as a parameter).
  \<^item> \<open>Normalizer\<close> (lines 39--51): \<open>scaled_size\<close> (the scale factor and
    \<^verbatim>\<open>int()\<close> truncation, Python's \<^verbatim>\<open>ZeroDivisionError\<close> included),
    \<open>offsets\<close>, \<open>pad_image\<close> (numpy's slice assignment with its shape check) and
    \<open>normalize\<close>, which also fails as \<^verbatim>\<open>cv2.resize\<close> does on an empty target size.
  \<^item> \<open>Segmenter\<close> (lines 54, 63): \<open>cvt_color\<close>, \<^verbatim>\<open>cv2.inRange\<close> as
    \<open>in_band\<close>/\<open>in_range\<close>, and \<open>bands_of\<close>, the bands holding a pixel;
    \<open>bgr_to_hsv\<close> is OpenCV's integer 8-bit BGR to HSV conversion (12-bit fixed
    point, division tables rounded half to even), used by the concrete instance.
  \<^item> \<open>Regions\<close> (lines 66--78): \<open>contour_area\<close> (OpenCV's shoelace formula),
    \<open>bounding_rect\<close>, \<open>sort_contours\<close> (Python's stable descending sort),
    \<open>take_regions\<close> (the loop with \<^verbatim>\<open>break\<close>) and \<open>select_regions\<close>.
  \<^item> \<open>Labels\<close> (lines 82--89, 101): \<open>default_anchor\<close>, \<open>overlaps\<close>,
    \<open>resolve_anchor\<close> (the one-shot collision pass), \<open>place_label\<close>, the abstract
    contract \<open>resolve_spec\<close>, and \<open>place_all\<close>, all labels of an image in order.
  \<^item> \<open>Annotator\<close> (lines 79, 92--98): the drawing calls as values \<open>draw_op\<close>
    (\<open>box_op\<close>, \<open>label_bg_op\<close>, \<open>label_text_op\<close>).
  \<^item> \<open>Pipeline\<close> (lines 39--101): the OpenCV interface \<open>cv_lib\<close>, the per-image
    state \<open>img_state\<close>, one step \<open>process_contour\<close>, the band loop \<open>band_loop\<close>,
    \<open>process_band\<close>, \<open>process_image\<close>; the inductive set \<open>img_reach\<close> of states the
    loop reaches and its invariant \<open>img_inv\<close>.
  \<^item> \<open>Batch\<close> (lines 28--36, 103--108): \<open>is_image_file\<close>, \<open>path_join\<close>,
    \<open>save_image\<close>, \<open>run_batch\<close> and \<open>run_script\<close>. An exception escaping
    \<open>process_image\<close> ends the script: the result is \<open>Inl\<close> of the error and the state
    (files written, lines printed) at that point.
  \<^item> \<open>Script\<close> (lines 28--108): the same loop as a small-step transition system,
    \<open>script_step\<close> on configurations \<open>script_cfg\<close> (running over the files still to
    do, ended by an exception, or finished after the last line), one step per iteration.
  \<^item> \<open>Boxes\<close> (lines 66, 78--79): the contract \<open>contours_ok\<close> on
    \<^verbatim>\<open>cv2.findContours\<close> (non-empty contours of set mask pixels), a concrete finder
    \<open>pixel_contours\<close> that meets it, and where the box outlines land on the canvas.

  \<^bold>\<open>How components interact.\<close> The components communicate only by values: the
  pipeline calls the normaliser, the segmenter, the region selection and the label placer
  and threads one \<open>img_state\<close> record through the contours; the batch threads a
  \<open>batch_state\<close> record through the files. OpenCV is the record \<open>cv_lib\<close> of
  functions (decode, resize, HSV conversion, contour finding, text size, drawing, encoding);
  where a theorem needs something of OpenCV it says so as a hypothesis (\<open>resize_ok\<close>,
  \<open>draw_ok\<close>, \<open>contours_ok\<close>), and \<open>demo_lib\<close> in \<open>Pipeline\<close> is a concrete instance on a 4 by 4
  canvas on which the witnesses evaluate whole runs by \<open>code_simp\<close>.

  \<^bold>\<open>What the lemmas show.\<close>
  \<^item> Label placement: \<open>resolve_anchor\<close> refines the \<open>find\<close>-based contract; the first
    colliding anchor decides the shift to its y plus 30; the moved label clears that anchor;
    the default anchor is never inside the box; placement only appends; and the greedy
    pass can leave two labels colliding (a concrete run).
  \<^item> Regions: the short-circuit loop on the descending list equals the filter by area;
    the kept regions are a permutation of the qualifying contours, in descending order, and
    a contour is kept iff its area reaches the threshold; \<open>sort_contours\<close> is the unique
    stable descending sort; a solid \<open>w\<close> by \<open>h\<close> block has area \<open>(w-1)(h-1)\<close>;
    \<open>bounding_rect\<close> is the tightest upright box around a contour.
  \<^item> Normalisation: the scaled size fits and one side fills the canvas; on success the
    canvas is black except for the resized image at offsets \<open>(target - scaled) div 2\<close>;
    a canvas produced by a successful run always has the configured size; the only
    exceptions are \<^verbatim>\<open>ZeroDivisionError\<close> on an empty image and the resize error.
  \<^item> Segmentation: OpenCV's integer hue always lies in 0--179 and saturation and value
    in 0--255, so the byte casts are exact; dark pixels (value below 100) are in no band; the
    Red and Orange bands overlap; saturated reds with hue 171--179 (BGR \<open>(b, 0, 255)\<close>,
    \<open>5 \<le> b \<le> 80\<close>) are in no band.
  \<^item> The pipeline: the per-image invariant by rule induction on \<open>img_reach\<close>; the
    label positions of an image are \<open>place_all\<close> over the boxes of the surviving regions;
    the label texts are the band names of those regions, one each; the counter is their
    number; with no detection the output is the normalised image; processing raises
    exactly for an empty image or one whose scaled size has an empty side.
  \<^item> The batch: without an exception the script runs to its end, every listed image
    gets its line in order followed by the final line, and a bad file never stops the
    loop; the files written are the decodable ones, each under its own base name
    (\<open>basename\<close> undoes \<open>path_join\<close>), and no path is written twice; in every run,
    whatever fails, the written paths are a subsequence of the printed success lines
    (\<open>batch_inv\<close>); a very wide image aborts the batch; a failed write is reported as
    saved.
  \<^item> Boxes: under \<open>contours_ok\<close>, every outline drawn starts inside the canvas and its
    far corner \<open>(x + w, y + h)\<close> is at most \<open>(width, height)\<close>, one pixel past the
    region, since \<^verbatim>\<open>cv2.rectangle\<close> draws that corner inclusively.
  \<^item> The loop as a transition system: it terminates on every input (no infinite chain of
    steps, by the measure \<open>cfg_rank\<close>, the number of files left plus one), it is
    deterministic, and the final configuration it reaches from the start is exactly the
    outcome of \<open>run_script\<close>, so the two readings of the loop agree.

  \<^bold>\<open>Bounds and arithmetic.\<close> Python ints are \<open>int\<close> (coordinates) or \<open>nat\<close>
  (sizes, which are never negative); pixel channels are \<open>8 word\<close> read with \<open>uint\<close>;
  the HSV conversion is OpenCV's exact integer formula; Python's float arithmetic in the
  scale factor and \<^verbatim>\<open>cv2.contourArea\<close> is modelled as
  exact \<open>rat\<close>. No loop needs fuel: every loop of the script runs over a finite list and
  is a structurally recursive function; the termination of the main loop read as a
  transition system is proved separately (\<open>Script\<close>).

  \<^bold>\<open>Not modelled.\<close> OpenCV's algorithms (decoding, \<^verbatim>\<open>INTER_AREA\<close> resampling, border
  following in \<^verbatim>\<open>findContours\<close>, rasterising rectangles
  and Hershey text, encoding) are parameters: they are library code, not the script's, and
  their properties enter the theorems as hypotheses (\<open>resize_ok\<close>, \<open>draw_ok\<close>,
  \<open>contours_ok\<close>). This is why Normalizer, RegionExtractor and Annotator are only partly
  modelled: what the script decides in them is modelled; the OpenCV algorithms they call
  (\<^verbatim>\<open>INTER_AREA\<close>, border following, rasterisation) are large library routines whose
  exact output a faithful model would have to reproduce pixel by pixel; \<^verbatim>\<open>os.listdir\<close> and \<^verbatim>\<open>os.makedirs\<close>
  are I/O (the listing is an input); \<^verbatim>\<open>os.path.join\<close> is taken in its POSIX form;
  \<^verbatim>\<open>str.lower\<close> is modelled on ASCII. The exact-rational scale factor differs from
  the script's floats for some widths (\<^verbatim>\<open>int(97 * (800 / 97))\<close> is 799 in IEEE
  doubles), a divergence recorded as a finding rather than modelled.
\<close>


section \<open>Properties across components\<close>

lemma image_regions_blank:
  "\<forall>(n, b) \<in> set bs. cv_find_contours lib (in_range hsv b) = [] \<Longrightarrow> image_regions lib t hsv bs = []"
  by (induction bs) (auto simp: image_regions_def)

text \<open>
  C29: An image none of whose pixels falls in any band range (after the HSV conversion) is
  written exactly as normalised: no region, no box, no label, provided the contour finder
  reports nothing on an all-zero mask.
\<close>

theorem no_band_output_unchanged:
  assumes norm: "normalize cfg (cv_resize lib) img = Inr padded"
    and none: "list_all (list_all (\<lambda>p. bands_of (cfg_bands cfg) (cv_hsv lib p) = [])) padded"
    and blank: "cv_find_contours lib (map (map (\<lambda>_. 0)) padded) = []"
  shows "process_image lib cfg img = Inr (init_state padded)"
proof -
  let ?hsv = "cvt_color (cv_hsv lib) padded"
  have "in_range ?hsv b = map (map (\<lambda>_. 0)) padded" if "(n, b) \<in> set (cfg_bands cfg)" for n b
  proof (rule in_range_blank)
    from none that show "list_all (list_all (\<lambda>p. \<not> in_band b (cv_hsv lib p))) padded"
      unfolding list_all_iff bands_of_Nil_iff by fastforce
  qed
  with blank have "image_regions lib (cfg_min_area cfg) ?hsv (cfg_bands cfg) = []"
    by (intro image_regions_blank) auto
  with norm show ?thesis by (simp add: process_image_result)
qed

theorem no_band_output_unchanged_witness:
  "normalize demo_cfg (cv_resize demo_lib) demo_dark_img =
     Inr (projr (normalize demo_cfg (cv_resize demo_lib) demo_dark_img)) \<and>
   list_all (list_all (\<lambda>p. bands_of (cfg_bands demo_cfg) (cv_hsv demo_lib p) = []))
     (projr (normalize demo_cfg (cv_resize demo_lib) demo_dark_img)) \<and>
   cv_find_contours demo_lib (map (map (\<lambda>_. 0)) (projr (normalize demo_cfg (cv_resize demo_lib) demo_dark_img))) = [] \<and>
   process_image demo_lib demo_cfg demo_dark_img =
     Inr (init_state (projr (normalize demo_cfg (cv_resize demo_lib) demo_dark_img)))"
proof -
  have n: "normalize demo_cfg (cv_resize demo_lib) demo_dark_img =
     Inr (projr (normalize demo_cfg (cv_resize demo_lib) demo_dark_img))" by code_simp
  have a: "list_all (list_all (\<lambda>p. bands_of (cfg_bands demo_cfg) (cv_hsv demo_lib p) = []))
     (projr (normalize demo_cfg (cv_resize demo_lib) demo_dark_img))" by code_simp
  have b: "cv_find_contours demo_lib (map (map (\<lambda>_. 0))
     (projr (normalize demo_cfg (cv_resize demo_lib) demo_dark_img))) = []" by code_simp
  show ?thesis using n a b no_band_output_unchanged [OF n a b] by blast
qed

text \<open>
  C30: The spec's scenario. On a canvas of black and pure red (BGR (0, 0, 255)) pixels,
  with OpenCV's HSV values (0, 0, 0) and (0, 255, 255) for them, only the Red band's mask
  has set pixels; if the contour finder reports nothing on an all-zero mask and one contour
  of sufficient area on the red mask, the image gets exactly one box, labelled Red.
\<close>

theorem single_red_region:
  assumes norm: "normalize cfg (cv_resize lib) img = Inr padded"
    and bands: "cfg_bands cfg = color_names"
    and pix: "list_all (list_all (\<lambda>p. p = black \<or> p = (0, 0, 255))) padded"
    and hb: "cv_hsv lib black = (0, 0, 0)" and hr: "cv_hsv lib (0, 0, 255) = (0, 255, 255)"
    and blank: "cv_find_contours lib (map (map (\<lambda>_. 0)) padded) = []"
    and red: "cv_find_contours lib
                (in_range (cvt_color (cv_hsv lib) padded) ((0, 100, 100), (10, 255, 255))) = [c]"
    and big: "cfg_min_area cfg \<le> contour_area c"
  shows "\<exists>st. process_image lib cfg img = Inr st \<and> contour_count st = 1 \<and>
           label_texts (drawn st) = [''Red'']"
proof -
  let ?hsv = "cvt_color (cv_hsv lib) padded"
  have other: "in_range ?hsv b = map (map (\<lambda>_. 0)) padded"
    if "\<not> in_band b (0, 0, 0)" "\<not> in_band b (0, 255, 255)" for b
  proof (rule in_range_blank)
    from pix show "list_all (list_all (\<lambda>p. \<not> in_band b (cv_hsv lib p))) padded"
      unfolding list_all_iff using hb hr that by fastforce
  qed
  have regions: "image_regions lib (cfg_min_area cfg) ?hsv color_names = [(''Red'', c)]"
    using big
    by (simp add: image_regions_def color_names_def red select_regions_single other blank in_band_def)
  define st where
    "st = fold (\<lambda>(name, c) st. process_contour lib name st c) [(''Red'', c)] (init_state padded)"
  have run: "process_image lib cfg img = Inr st"
    using norm bands regions by (simp add: process_image_result st_def)
  have "contour_count st = 1"
    unfolding st_def by (simp only: fold_process_contour_count) (simp add: init_state_def)
  moreover have "label_texts (drawn st) = [''Red'']"
    unfolding st_def by (simp only: fold_process_contour_texts) (simp add: init_state_def label_texts_def)
  ultimately show ?thesis using run by blast
qed

theorem single_red_region_witness:
  "normalize demo_cfg (cv_resize demo_lib) demo_img =
     Inr (projr (normalize demo_cfg (cv_resize demo_lib) demo_img)) \<and>
   cfg_bands demo_cfg = color_names \<and>
   list_all (list_all (\<lambda>p. p = black \<or> p = (0, 0, 255))) (projr (normalize demo_cfg (cv_resize demo_lib) demo_img)) \<and>
   cv_hsv demo_lib black = (0, 0, 0) \<and> cv_hsv demo_lib (0, 0, 255) = (0, 255, 255) \<and>
   cv_find_contours demo_lib (map (map (\<lambda>_. 0)) (projr (normalize demo_cfg (cv_resize demo_lib) demo_img))) = [] \<and>
   cv_find_contours demo_lib (in_range (cvt_color (cv_hsv demo_lib) (projr (normalize demo_cfg (cv_resize demo_lib) demo_img)))
     ((0, 100, 100), (10, 255, 255))) = [rect_contour 0 1 4 2] \<and>
   cfg_min_area demo_cfg \<le> contour_area (rect_contour 0 1 4 2) \<and>
   (\<exists>st. process_image demo_lib demo_cfg demo_img = Inr st \<and> contour_count st = 1 \<and>
      label_texts (drawn st) = [''Red''])"
proof -
  let ?p = "projr (normalize demo_cfg (cv_resize demo_lib) demo_img)"
  have n: "normalize demo_cfg (cv_resize demo_lib) demo_img = Inr ?p" by (rule demo_normalize)
  have b: "cfg_bands demo_cfg = color_names" by (simp add: demo_cfg_def)
  have pix: "list_all (list_all (\<lambda>p. p = black \<or> p = (0, 0, 255))) ?p" by code_simp
  have hb: "cv_hsv demo_lib black = (0, 0, 0)" by code_simp
  have hr: "cv_hsv demo_lib (0, 0, 255) = (0, 255, 255)" by code_simp
  have bl: "cv_find_contours demo_lib (map (map (\<lambda>_. 0)) ?p) = []" by code_simp
  have rd: "cv_find_contours demo_lib (in_range (cvt_color (cv_hsv demo_lib) ?p)
     ((0, 100, 100), (10, 255, 255))) = [rect_contour 0 1 4 2]" by code_simp
  have big: "cfg_min_area demo_cfg \<le> contour_area (rect_contour 0 1 4 2)"
    by (simp add: demo_cfg_def contour_area_def rect_contour_def)
  show ?thesis using n b pix hb hr bl rd big single_red_region [OF n b pix hb hr bl rd big] by blast
qed

text \<open>
  C31: The order of the colour table does not change which boxes are drawn: permuting the
  bands gives the same box outlines, counted with multiplicity, and the same detection
  count; only the labels can differ (C32).
\<close>

theorem boxes_independent_of_band_order:
  assumes perm: "mset bs = mset (cfg_bands cfg)"
    and r1: "process_image lib cfg img = Inr st"
    and r2: "process_image lib (cfg\<lparr>cfg_bands := bs\<rparr>) img = Inr st'"
  shows "mset (filter is_box (drawn st')) = mset (filter is_box (drawn st)) \<and>
         contour_count st' = contour_count st"
proof -
  from process_image_Inr_normalize [OF r1] obtain padded
    where n: "normalize cfg (cv_resize lib) img = Inr padded" by blast
  let ?hsv = "cvt_color (cv_hsv lib) padded" and ?t = "cfg_min_area cfg"
  have st: "st = fold (\<lambda>(name, c) st. process_contour lib name st c)
              (image_regions lib ?t ?hsv (cfg_bands cfg)) (init_state padded)"
    using n r1 by (simp add: process_image_result)
  have st': "st' = fold (\<lambda>(name, c) st. process_contour lib name st c)
              (image_regions lib ?t ?hsv bs) (init_state padded)"
    using n r2 by (simp add: process_image_result)
  have m: "mset (image_regions lib ?t ?hsv bs) = mset (image_regions lib ?t ?hsv (cfg_bands cfg))"
    using perm by (rule mset_image_regions_perm)
  then have "length (image_regions lib ?t ?hsv bs) = length (image_regions lib ?t ?hsv (cfg_bands cfg))"
    by (metis size_mset)
  moreover have "mset (map (box_op \<circ> bounding_rect \<circ> snd) (image_regions lib ?t ?hsv bs)) =
                 mset (map (box_op \<circ> bounding_rect \<circ> snd) (image_regions lib ?t ?hsv (cfg_bands cfg)))"
    using m by (simp only: mset_map)
  ultimately show ?thesis
    unfolding st st' by (simp add: fold_process_contour_boxes fold_process_contour_count init_state_def)
qed

theorem boxes_independent_of_band_order_witness:
  "mset (rev color_names) = mset (cfg_bands demo_cfg) \<and>
   process_image demo_overlap_lib demo_cfg demo_img =
     Inr (projr (process_image demo_overlap_lib demo_cfg demo_img)) \<and>
   process_image demo_overlap_lib (demo_cfg\<lparr>cfg_bands := rev color_names\<rparr>) demo_img =
     Inr (projr (process_image demo_overlap_lib (demo_cfg\<lparr>cfg_bands := rev color_names\<rparr>) demo_img)) \<and>
   mset (filter is_box (drawn (projr (process_image demo_overlap_lib (demo_cfg\<lparr>cfg_bands := rev color_names\<rparr>) demo_img)))) =
   mset (filter is_box (drawn (projr (process_image demo_overlap_lib demo_cfg demo_img))))"
proof -
  have p: "mset (rev color_names) = mset (cfg_bands demo_cfg)" by (simp add: demo_cfg_def)
  have r1: "process_image demo_overlap_lib demo_cfg demo_img =
     Inr (projr (process_image demo_overlap_lib demo_cfg demo_img))" by code_simp
  have r2: "process_image demo_overlap_lib (demo_cfg\<lparr>cfg_bands := rev color_names\<rparr>) demo_img =
     Inr (projr (process_image demo_overlap_lib (demo_cfg\<lparr>cfg_bands := rev color_names\<rparr>) demo_img))"
    by code_simp
  show ?thesis using p r1 r2 boxes_independent_of_band_order [OF p r1 r2] by blast
qed


end
